theory Spec2Isabelle
  imports Main "HOL-Library.Sublist"
begin

section \<open>Python values\<close>

text \<open>
  Strings are character lists; a character stands for a code point below 256, so the
  accented letters of the Spanish messages are written \<open>CHR 0xF3\<close> and the like.
  \<open>sublist\<close> is Python's \<open>in\<close> on strings.

  \<open>py\<close> holds the values a decoded JSON document or a result dictionary is made of.
  A Python float is carried by its \<open>repr\<close>. A dictionary is an association list in
  insertion order.
\<close>

datatype py =
    PNone
  | PBool bool
  | PInt int
  | PFloat string
  | PStr string
  | PList "py list"
  | PDict "(string \<times> py) list"

text \<open>
  The exceptions that occur: \<open>json.JSONDecodeError\<close>, which \<open>chat\<close> handles in a
  clause of its own, and every other \<open>Exception\<close>, of which the handlers only read
  \<open>str(e)\<close>.
\<close>

datatype exn = JSONDecodeError string | PyException string

fun str_exn :: "exn \<Rightarrow> string" where
  "str_exn (JSONDecodeError m) = m"
| "str_exn (PyException m) = m"

definition and_then :: "exn + 'a \<Rightarrow> ('a \<Rightarrow> exn + 'b) \<Rightarrow> exn + 'b" where
  "and_then r f = (case r of Inl e \<Rightarrow> Inl e | Inr x \<Rightarrow> f x)"

text \<open>\<open>str(n)\<close> for an integer: decimal digits, with a minus sign.\<close>

definition digit_char :: "nat \<Rightarrow> char" where
  "digit_char d = char_of (48 + d)"

function show_nat :: "nat \<Rightarrow> string" where
  "show_nat n = (if n < 10 then [digit_char n] else show_nat (n div 10) @ [digit_char (n mod 10)])"
  by pat_completeness auto
termination
  by (relation "measure id") auto

definition show_int :: "int \<Rightarrow> string" where
  "show_int i = (if i < 0 then CHR ''-'' # show_nat (nat (- i)) else show_nat (nat i))"

section \<open>Python string operations\<close>

text \<open>\<open>str.isspace\<close> on the code points below 256.\<close>

definition is_space :: "char \<Rightarrow> bool" where
  "is_space c = (of_char c \<in> set [9, 10, 11, 12, 13, 28, 29, 30, 31, 32, 133, 160 :: nat])"

definition py_strip :: "string \<Rightarrow> string" where
  "py_strip s = rev (dropWhile is_space (rev (dropWhile is_space s)))"

text \<open>
  \<open>str.partition\<close>: the text before and after the leftmost occurrence of the
  separator, \<open>None\<close> when it does not occur.
\<close>

fun py_partition :: "string \<Rightarrow> string \<Rightarrow> (string \<times> string) option" where
  "py_partition sep [] = (if sep = [] then Some ([], []) else None)"
| "py_partition sep (c # cs) =
     (if prefix sep (c # cs) then Some ([], drop (length sep) (c # cs))
      else case py_partition sep cs of
             None \<Rightarrow> None
           | Some (b, a) \<Rightarrow> Some (c # b, a))"

lemma py_partition_Some:
  "py_partition sep s = Some (b, a) \<Longrightarrow> s = b @ sep @ a"
proof (induction s arbitrary: b)
  case Nil
  then show ?case by (simp split: if_splits)
next
  case (Cons c cs)
  show ?case
  proof (cases "prefix sep (c # cs)")
    case True
    with Cons.prems have "b = []" and "a = drop (length sep) (c # cs)" by simp_all
    moreover from True have "c # cs = sep @ drop (length sep) (c # cs)"
      by (metis append_eq_conv_conj prefixE)
    ultimately show ?thesis by simp
  next
    case False
    with Cons.prems obtain b' where "py_partition sep cs = Some (b', a)" and "b = c # b'"
      by (auto split: option.splits)
    with Cons.IH show ?thesis by simp
  qed
qed

text \<open>
  \<open>str.split(sep)\<close> cuts at the non-overlapping occurrences of the separator, from
  the left. Python raises \<open>ValueError\<close> for the empty separator.
\<close>

function split_at :: "string \<Rightarrow> string \<Rightarrow> string list" where
  "split_at sep s =
     (case (if sep = [] then None else py_partition sep s) of
        None \<Rightarrow> [s]
      | Some (b, a) \<Rightarrow> b # split_at sep a)"
  by pat_completeness auto
termination
proof (relation "measure (\<lambda>(sep, s). length s)")
  show "wf (measure (\<lambda>(sep, s). length s))" by simp
next
  fix sep s :: string and x2 x y
  assume "(if sep = [] then None else py_partition sep s) = Some x2" and "(x, y) = x2"
  then have "sep \<noteq> []" and "py_partition sep s = Some (x, y)"
    by (auto split: if_splits)
  then have "s = x @ sep @ y" and "0 < length sep"
    by (simp_all add: py_partition_Some)
  then have "length y < length s"
    by (metis add_lessD1 length_append less_add_same_cancel2 nat_add_left_cancel_less add.commute)
  then show "((sep, y), (sep, s)) \<in> measure (\<lambda>(sep, s). length s)" by simp
qed

declare split_at.simps [simp del]

definition py_split :: "string \<Rightarrow> string \<Rightarrow> exn + string list" where
  "py_split sep s =
     (if sep = [] then Inl (PyException ''empty separator'') else Inr (split_at sep s))"

fun py_join :: "string \<Rightarrow> string list \<Rightarrow> string" where
  "py_join sep [] = []"
| "py_join sep [x] = x"
| "py_join sep (x # y # ys) = x @ sep @ py_join sep (y # ys)"

text \<open>
  \<open>str.replace(old, new)\<close>: every non-overlapping occurrence from the left; with
  the empty \<open>old\<close>, \<open>new\<close> goes before every character and at the end.
\<close>

definition py_replace :: "string \<Rightarrow> string \<Rightarrow> string \<Rightarrow> string" where
  "py_replace old new s =
     (if old = [] then new @ concat (map (\<lambda>c. c # new) s)
      else py_join new (split_at old s))"

text \<open>\<open>xs[i]\<close> for a non-negative index.\<close>

definition py_index :: "'a list \<Rightarrow> nat \<Rightarrow> exn + 'a" where
  "py_index xs i =
     (if i < length xs then Inr (xs ! i) else Inl (PyException ''list index out of range''))"

section \<open>Command execution\<close>

text \<open>
  What the operating system does with a command is the environment's choice: spawning
  the shell or talking to it raises an \<open>Exception\<close> (with its \<open>str\<close>), or the process
  ends within the timeout with its decoded output and return code, or
  \<open>asyncio.wait_for\<close> raises \<open>TimeoutError\<close>. In the last case the handler calls
  \<open>process.kill()\<close>, which kills the process or, when the process has ended in the
  meantime, raises \<open>ProcessLookupError\<close>, an \<open>Exception\<close> whose \<open>str\<close> is empty.
\<close>

datatype kill_outcome = Killed | KillRaised string

datatype proc_outcome =
    Raised string
  | Completed string string int
  | TimedOut kill_outcome

type_synonym shell = "string \<Rightarrow> int \<Rightarrow> proc_outcome"

text \<open>
  A run returns its result dictionary and whether \<open>process.kill()\<close> killed the
  process.
\<close>

record run =
  result :: py
  killed :: bool

definition timeout_message :: "int \<Rightarrow> string" where
  "timeout_message timeout =
     ''Comando excedi'' @ [CHR 0xF3] @ '' el timeout de '' @ show_int timeout @ '' segundos''"

text \<open>
  \<open>ToolExecutor.run_command\<close> (tool_executor.py). The call of \<open>process.kill()\<close>
  stands inside the outer \<open>try\<close>: when it raises, the handler of \<open>Exception\<close>
  answers in place of the handler of the timeout.
\<close>

definition run_command :: "shell \<Rightarrow> string \<Rightarrow> int \<Rightarrow> run" where
  "run_command sh command timeout =
     (case sh command timeout of
        Completed out err rc \<Rightarrow>
          \<lparr>result = PDict [(''success'', PBool True), (''command'', PStr command),
                           (''stdout'', PStr out), (''stderr'', PStr err),
                           (''returncode'', PInt rc)],
           killed = False\<rparr>
      | TimedOut k \<Rightarrow>
          (case k of
             Killed \<Rightarrow>
               \<lparr>result = PDict [(''success'', PBool False), (''command'', PStr command),
                                (''error'', PStr (timeout_message timeout))],
                killed = True\<rparr>
           | KillRaised e \<Rightarrow>
               \<lparr>result = PDict [(''success'', PBool False), (''command'', PStr command),
                                (''error'', PStr e)],
                killed = False\<rparr>)
      | Raised e \<Rightarrow>
          \<lparr>result = PDict [(''success'', PBool False), (''command'', PStr command),
                           (''error'', PStr e)],
           killed = False\<rparr>)"

text \<open>
  \<open>ToolSystemManager._run_command\<close> (tool_system.py). The command is rebuilt inside
  the \<open>try\<close> before the shell is spawned, so the handler of \<open>Exception\<close> reads the
  rebuilt command as well, and does not redact it. That handler also answers when
  \<open>process.kill()\<close> raises.
\<close>

definition sudo_command :: "string \<Rightarrow> bool \<Rightarrow> string \<Rightarrow> string" where
  "sudo_command root_password use_sudo command =
     (if use_sudo \<and> root_password \<noteq> [] then
        ''echo '' @ [CHR 0x22] @ root_password @ [CHR 0x22] @ '' | sudo -S '' @ command
      else if use_sudo then ''sudo '' @ command
      else command)"

definition redact :: "string \<Rightarrow> string \<Rightarrow> string" where
  "redact root_password command =
     (if root_password \<noteq> [] then py_replace root_password ''***'' command else command)"

definition system_run_command :: "string \<Rightarrow> shell \<Rightarrow> string \<Rightarrow> int \<Rightarrow> bool \<Rightarrow> run" where
  "system_run_command root_password sh command0 timeout use_sudo =
     (let command = sudo_command root_password use_sudo command0 in
      case sh command timeout of
        Completed out err rc \<Rightarrow>
          \<lparr>result = PDict [(''success'', PBool True),
                           (''command'', PStr (redact root_password command)),
                           (''stdout'', PStr out), (''stderr'', PStr err),
                           (''returncode'', PInt rc)],
           killed = False\<rparr>
      | TimedOut k \<Rightarrow>
          (case k of
             Killed \<Rightarrow>
               \<lparr>result = PDict [(''success'', PBool False),
                                (''command'', PStr (redact root_password command)),
                                (''error'', PStr (timeout_message timeout))],
                killed = True\<rparr>
           | KillRaised e \<Rightarrow>
               \<lparr>result = PDict [(''success'', PBool False), (''command'', PStr command),
                                (''error'', PStr e)],
                killed = False\<rparr>)
      | Raised e \<Rightarrow>
          \<lparr>result = PDict [(''success'', PBool False), (''command'', PStr command),
                           (''error'', PStr e)],
           killed = False\<rparr>)"

text \<open>Reading a result dictionary: \<open>d[k]\<close> when the key is there.\<close>

definition field :: "py \<Rightarrow> string \<Rightarrow> py option" where
  "field v k = (case v of PDict d \<Rightarrow> map_of d k | _ \<Rightarrow> None)"

definition is_bool :: "py option \<Rightarrow> bool" where
  "is_bool v = (case v of Some (PBool b) \<Rightarrow> True | _ \<Rightarrow> False)"

definition is_str :: "py option \<Rightarrow> bool" where
  "is_str v = (case v of Some (PStr s) \<Rightarrow> True | _ \<Rightarrow> False)"

definition completed :: "proc_outcome \<Rightarrow> bool" where
  "completed p = (case p of Completed out err rc \<Rightarrow> True | _ \<Rightarrow> False)"

section \<open>Python operations on decoded values\<close>

definition type_name :: "py \<Rightarrow> string" where
  "type_name v =
     (case v of PNone \<Rightarrow> ''NoneType'' | PBool b \<Rightarrow> ''bool'' | PInt i \<Rightarrow> ''int''
      | PFloat r \<Rightarrow> ''float'' | PStr s \<Rightarrow> ''str'' | PList xs \<Rightarrow> ''list''
      | PDict d \<Rightarrow> ''dict'')"

definition quoted :: "string \<Rightarrow> string" where
  "quoted s = [CHR 0x27] @ s @ [CHR 0x27]"

text \<open>
  \<open>k in v\<close> for a string \<open>k\<close>: a key of a dictionary, an element of a list, a
  substring of a string; a \<open>TypeError\<close> on the other values.
\<close>

definition py_in :: "string \<Rightarrow> py \<Rightarrow> exn + bool" where
  "py_in k v =
     (case v of
        PDict d \<Rightarrow> Inr (k \<in> set (map fst d))
      | PList xs \<Rightarrow> Inr (PStr k \<in> set xs)
      | PStr s \<Rightarrow> Inr (sublist k s)
      | _ \<Rightarrow> Inl (PyException (''argument of type '' @ quoted (type_name v) @ '' is not iterable'')))"

text \<open>\<open>v[k]\<close> for a string \<open>k\<close>: \<open>KeyError\<close> on a missing key, \<open>TypeError\<close> off dictionaries.\<close>

definition py_getitem :: "py \<Rightarrow> string \<Rightarrow> exn + py" where
  "py_getitem v k =
     (case v of
        PDict d \<Rightarrow> (case map_of d k of Some x \<Rightarrow> Inr x | None \<Rightarrow> Inl (PyException (quoted k)))
      | PList xs \<Rightarrow> Inl (PyException ''list indices must be integers or slices, not str'')
      | PStr s \<Rightarrow> Inl (PyException (''string indices must be integers, not '' @ quoted ''str''))
      | _ \<Rightarrow> Inl (PyException (quoted (type_name v) @ '' object is not subscriptable'')))"

text \<open>\<open>v.get(k, default)\<close>: \<open>AttributeError\<close> off dictionaries.\<close>

definition py_get :: "py \<Rightarrow> string \<Rightarrow> py \<Rightarrow> exn + py" where
  "py_get v k dflt =
     (case v of
        PDict d \<Rightarrow> (case map_of d k of Some x \<Rightarrow> Inr x | None \<Rightarrow> Inr dflt)
      | _ \<Rightarrow> Inl (PyException (quoted (type_name v) @ '' object has no attribute '' @ quoted ''get'')))"

definition py_truthy :: "py \<Rightarrow> bool" where
  "py_truthy v =
     (case v of PNone \<Rightarrow> False | PBool b \<Rightarrow> b | PInt i \<Rightarrow> i \<noteq> 0
      | PFloat r \<Rightarrow> r \<noteq> ''0.0'' \<and> r \<noteq> ''-0.0'' | PStr s \<Rightarrow> s \<noteq> []
      | PList xs \<Rightarrow> xs \<noteq> [] | PDict d \<Rightarrow> d \<noteq> [])"

definition py_hashable :: "py \<Rightarrow> bool" where
  "py_hashable v = (case v of PList xs \<Rightarrow> False | PDict d \<Rightarrow> False | _ \<Rightarrow> True)"

text \<open>
  \<open>str(v)\<close>, as an f-string interpolates it: the string itself for a string; for the
  other values what Python's built-in \<open>repr\<close> gives, a parameter here.
\<close>

definition py_str :: "(py \<Rightarrow> string) \<Rightarrow> py \<Rightarrow> string" where
  "py_str repr v = (case v of PStr s \<Rightarrow> s | _ \<Rightarrow> repr v)"

section \<open>Tool discovery\<close>

text \<open>
  \<open>ToolDiscovery.check_tool_installed\<close> asks \<open>which\<close> and answers False on any
  exception: it is a predicate \<open>installed\<close> on values, given by the environment.
  \<open>ToolDiscovery.suggest_install\<close> (tool_discovery.py) looks the name up in its table;
  the look-up raises \<open>TypeError\<close> on a list or a dictionary.
\<close>

definition install_commands :: "(string \<times> string) list" where
  "install_commands =
     [(''nmap'', ''sudo apt install nmap''),
      (''nikto'', ''sudo apt install nikto''),
      (''gobuster'', ''sudo apt install gobuster''),
      (''sqlmap'', ''sudo apt install sqlmap''),
      (''hydra'', ''sudo apt install hydra''),
      (''john'', ''sudo apt install john''),
      (''hashcat'', ''sudo apt install hashcat''),
      (''aircrack-ng'', ''sudo apt install aircrack-ng''),
      (''wireshark'', ''sudo apt install wireshark''),
      (''metasploit-framework'', ''sudo apt install metasploit-framework''),
      (''msfvenom'', ''sudo apt install metasploit-framework''),
      (''wpscan'', ''sudo gem install wpscan''),
      (''whatweb'', ''sudo apt install whatweb''),
      (''enum4linux'', ''sudo apt install enum4linux''),
      (''masscan'', ''sudo apt install masscan''),
      (''reaver'', ''sudo apt install reaver''),
      (''ettercap'', ''sudo apt install ettercap-graphical''),
      (''binwalk'', ''sudo apt install binwalk''),
      (''volatility'', ''sudo apt install volatility'')]"

definition suggest_install :: "(py \<Rightarrow> string) \<Rightarrow> (py \<Rightarrow> bool) \<Rightarrow> py \<Rightarrow> exn + py" where
  "suggest_install repr installed tool_name =
     (let dflt = ''sudo apt install '' @ py_str repr tool_name in
      if \<not> py_hashable tool_name then
        Inl (PyException (''unhashable type: '' @ quoted (type_name tool_name)))
      else
        let command =
              (case tool_name of
                 PStr s \<Rightarrow> (case map_of install_commands s of Some c \<Rightarrow> c | None \<Rightarrow> dflt)
               | _ \<Rightarrow> dflt)
        in Inr (PDict [(''tool'', tool_name),
                       (''installed'', PBool (installed tool_name)),
                       (''install_command'', PStr command),
                       (''package_manager'', PStr ''apt'')]))"

section \<open>The assistant\<close>

datatype role = System | User | Assistant

type_synonym message = "role \<times> string"

text \<open>
  The completion API either raises an \<open>Exception\<close> or gives the content of its first
  choice. \<open>client\<close> is \<open>None\<close> when no API key is configured.
\<close>

datatype upstream = Failed exn | Replied string

record assistant =
  client :: "(message list \<Rightarrow> upstream) option"
  user_contexts :: "int \<rightharpoonup> message list"
  check_tool_installed :: "py \<Rightarrow> bool"
  system_prompt :: string

text \<open>What the code takes from Python itself: \<open>json.loads\<close> and \<open>repr\<close>.\<close>

record builtins =
  json_loads :: "string \<Rightarrow> exn + py"
  py_repr :: "py \<Rightarrow> string"

definition AI_MAX_CONTEXT :: nat where
  "AI_MAX_CONTEXT = 10"

text \<open>\<open>xs[-n:]\<close> for \<open>n \<ge> 0\<close>; \<open>xs[-0:]\<close> is the whole list.\<close>

definition last_entries :: "nat \<Rightarrow> 'a list \<Rightarrow> 'a list" where
  "last_entries n xs = (if n = 0 then xs else drop (length xs - n) xs)"

definition get_context :: "assistant \<Rightarrow> int \<Rightarrow> message list" where
  "get_context st user_id = (case user_contexts st user_id of None \<Rightarrow> [] | Some c \<Rightarrow> c)"

text \<open>Lines 84 to 95 of \<open>chat\<close>: the messages sent to the model.\<close>

definition build_messages :: "assistant \<Rightarrow> string \<Rightarrow> int \<Rightarrow> message list" where
  "build_messages st user_message user_id =
     (System, system_prompt st)
       # last_entries AI_MAX_CONTEXT (get_context st user_id) @ [(User, user_message)]"

text \<open>
  \<open>AIAssistant._parse_ai_response\<close> (ai_assistant.py): first the text is cleaned of a
  code fence, then decoded. After decoding, the code prints \<open>list(parsed.keys())\<close>
  inside the \<open>try\<close>, which raises \<open>AttributeError\<close> on anything but a dictionary.
\<close>

definition clean_response :: "string \<Rightarrow> exn + string" where
  "clean_response response =
     (if prefix ''```json'' (py_strip response) then
        and_then (py_split ''```json'' response) (\<lambda>parts.
        and_then (py_index parts 1) (\<lambda>inner.
        and_then (py_split ''```'' inner) (\<lambda>parts'.
        and_then (py_index parts' 0) (\<lambda>body. Inr (py_strip body)))))
      else if prefix ''```'' (py_strip response) then
        and_then (py_split ''```'' response) (\<lambda>parts.
        and_then (py_index parts 1) (\<lambda>inner.
        and_then (py_split ''```'' inner) (\<lambda>parts'.
        and_then (py_index parts' 0) (\<lambda>body. Inr (py_strip body)))))
      else Inr (py_strip response))"

definition parse_ai_response :: "(string \<Rightarrow> exn + py) \<Rightarrow> string \<Rightarrow> exn + py" where
  "parse_ai_response loads response =
     and_then (clean_response response) (\<lambda>cleaned.
     and_then (loads cleaned) (\<lambda>parsed.
       case parsed of
         PDict d \<Rightarrow> Inr parsed
       | _ \<Rightarrow> Inl (PyException (quoted (type_name parsed) @ '' object has no attribute ''
                                @ quoted ''keys''))))"

definition error_unavailable :: py where
  "error_unavailable =
     PDict [(''error'', PStr ''IA no disponible''),
            (''suggestion'', PStr ''Configura OPENAI_API_KEY en el archivo .env'')]"

definition error_parse :: py where
  "error_parse =
     PDict [(''error'', PStr ''Error al parsear respuesta de IA''),
            (''suggestion'',
             PStr (''Intenta reformular tu pregunta. La IA est'' @ [CHR 0xE1]
                   @ '' respondiendo texto en lugar de JSON.''))]"

definition error_general :: "string \<Rightarrow> py" where
  "error_general m =
     PDict [(''error'', PStr (''Error de IA: '' @ m)),
            (''suggestion'', PStr ''Intenta de nuevo o usa comandos directos'')]"

definition not_installed_explanation :: "string \<Rightarrow> string" where
  "not_installed_explanation name =
     name @ '' no est'' @ [CHR 0xE1] @ '' instalada. '' @ [CHR 0xBF] @ ''Quieres que la instale?''"

text \<open>Lines 126 to 137 of \<open>chat\<close>: the availability check on a reply that has "tool".\<close>

definition check_tool :: "(py \<Rightarrow> string) \<Rightarrow> (py \<Rightarrow> bool) \<Rightarrow> py \<Rightarrow> exn + py" where
  "check_tool repr installed parsed =
     and_then (py_in ''tool'' parsed) (\<lambda>has_tool.
       if has_tool then
         and_then (py_getitem parsed ''tool'') (\<lambda>tool_name.
           if \<not> installed tool_name then
             and_then (suggest_install repr installed tool_name) (\<lambda>install_info.
             and_then (py_getitem install_info ''install_command'') (\<lambda>install_command.
               Inr (PDict [(''tool_not_installed'', tool_name),
                           (''install_command'', install_command),
                           (''offer_install'', PBool True),
                           (''explanation'',
                            PStr (not_installed_explanation (py_str repr tool_name)))])))
           else Inr parsed)
       else Inr parsed)"

text \<open>
  \<open>AIAssistant.chat\<close>. Its two \<open>except\<close> clauses, the first for
  \<open>json.JSONDecodeError\<close>, the second for any other \<open>Exception\<close>, are
  \<open>except_clauses\<close>; the assignment to \<open>self.user_contexts[user_id]\<close> is
  \<open>store_exchange\<close>. The exchange is stored before the reply is decoded.
\<close>

definition except_clauses :: "exn \<Rightarrow> py" where
  "except_clauses e =
     (case e of JSONDecodeError m \<Rightarrow> error_parse | PyException m \<Rightarrow> error_general m)"

definition store_exchange :: "assistant \<Rightarrow> int \<Rightarrow> string \<Rightarrow> string \<Rightarrow> assistant" where
  "store_exchange st user_id user_message ai_response =
     st\<lparr>user_contexts := (user_contexts st)
          (user_id \<mapsto> get_context st user_id
             @ [(User, user_message), (Assistant, ai_response)])\<rparr>"

definition chat :: "builtins \<Rightarrow> assistant \<Rightarrow> string \<Rightarrow> int \<Rightarrow> py \<times> assistant" where
  "chat bi st user_message user_id =
     (case client st of
        None \<Rightarrow> (error_unavailable, st)
      | Some complete \<Rightarrow>
          (case complete (build_messages st user_message user_id) of
             Failed e \<Rightarrow> (except_clauses e, st)
           | Replied content \<Rightarrow>
               (let ai_response = py_strip content;
                    st' = store_exchange st user_id user_message ai_response
                in (case and_then (parse_ai_response (json_loads bi) ai_response)
                           (check_tool (py_repr bi) (check_tool_installed st)) of
                      Inr answer \<Rightarrow> (answer, st')
                    | Inl e \<Rightarrow> (except_clauses e, st')))))"

section \<open>The dispatcher\<close>

text \<open>
  What \<open>KaliTelegramBot._handle_ai_response\<close> (telegram_bot.py) does with the result of
  \<open>chat\<close>, as the list of its outbound actions: each reply carries the values that go
  into its text, and \<open>ExecuteTool\<close> stands for the call of the executor.
\<close>

datatype action =
    ReplyConversation py
  | ReplyQuestion py py
  | OfferInstall py py py
  | AnnounceTool py py py
  | ReplyExecuting py
  | ExecuteTool py py
  | ReplyOutput py
  | ReplyExecError py
  | ReplyExecException string
  | ReplyError py py
  | ReplyUnknown

text \<open>\<open>xs[i:j]\<close> for \<open>0 \<le> i \<le> j\<close>.\<close>

definition py_slice :: "nat \<Rightarrow> nat \<Rightarrow> 'a list \<Rightarrow> 'a list" where
  "py_slice i j xs = take (j - i) (drop i xs)"

text \<open>
  The loop \<open>for i in range(0, len(output), 4000)\<close>, from its counter \<open>i\<close> on: one
  chunk \<open>output[i:i+4000]\<close> per round. The handler of the older server
  (kali_mcp_server_telegram.py) has the same loop.
\<close>

function send_chunks :: "nat \<Rightarrow> 'a list \<Rightarrow> 'a list list" where
  "send_chunks i output =
     (if i < length output then py_slice i (i + 4000) output # send_chunks (i + 4000) output
      else [])"
  by pat_completeness auto
termination
  by (relation "measure (\<lambda>(i, output). length output - i)") auto

declare send_chunks.simps [simp del]

definition split_output :: "'a list \<Rightarrow> 'a list list" where
  "split_output output = (if length output > 4000 then send_chunks 0 output else [output])"

text \<open>
  The replies that carry the output: \<open>len\<close> raises on a value without a length, and
  slicing raises on a dictionary.
\<close>

definition send_output :: "py \<Rightarrow> exn + action list" where
  "send_output output =
     (case output of
        PStr s \<Rightarrow> Inr (map (\<lambda>c. ReplyOutput (PStr c)) (split_output s))
      | PList xs \<Rightarrow> Inr (map (\<lambda>c. ReplyOutput (PList c)) (split_output xs))
      | PDict d \<Rightarrow>
          (if length d > 4000 then Inl (PyException (''unhashable type: '' @ quoted ''slice''))
           else Inr [ReplyOutput output])
      | _ \<Rightarrow> Inl (PyException (''object of type '' @ quoted (type_name output) @ '' has no len()'')))"

definition report_result :: "py \<Rightarrow> exn + action list" where
  "report_result result_data =
     and_then (py_get result_data ''success'' PNone) (\<lambda>success.
       if py_truthy success then
         and_then (py_getitem result_data ''stdout'') send_output
       else
         and_then (py_get result_data ''error'' (PStr ''Error desconocido'')) (\<lambda>error.
           Inr [ReplyExecError error]))"

text \<open>
  The executor is a parameter: given the tool's name and parameters it raises or gives
  a result, decoded. Whatever is raised inside the \<open>try\<close> becomes a reply.
\<close>

type_synonym executor = "py \<Rightarrow> py \<Rightarrow> exn + py"

definition run_tool :: "executor \<Rightarrow> py \<Rightarrow> py \<Rightarrow> action list" where
  "run_tool execute_tool tool_name parameters =
     ExecuteTool tool_name parameters
       # (case and_then (execute_tool tool_name parameters) report_result of
            Inl e \<Rightarrow> [ReplyExecException (str_exn e)]
          | Inr replies \<Rightarrow> replies)"

text \<open>
  The bodies of the five branches of the handler. In the branch of a question the
  suggestions are enumerated when they are truthy, which raises on a value that cannot
  be iterated.
\<close>

definition py_iterable :: "py \<Rightarrow> bool" where
  "py_iterable v = (case v of PStr s \<Rightarrow> True | PList xs \<Rightarrow> True | PDict d \<Rightarrow> True | _ \<Rightarrow> False)"

definition reply_conversation :: "py \<Rightarrow> exn + action list" where
  "reply_conversation ai_result =
     and_then (py_getitem ai_result ''conversation'') (\<lambda>text. Inr [ReplyConversation text])"

definition reply_question :: "py \<Rightarrow> exn + action list" where
  "reply_question ai_result =
     and_then (py_getitem ai_result ''question'') (\<lambda>question.
     and_then (py_get ai_result ''suggestions'' (PList [])) (\<lambda>suggestions.
       if py_truthy suggestions \<and> \<not> py_iterable suggestions then
         Inl (PyException (quoted (type_name suggestions) @ '' object is not iterable''))
       else Inr [ReplyQuestion question suggestions]))"

definition offer_install :: "py \<Rightarrow> exn + action list" where
  "offer_install ai_result =
     and_then (py_getitem ai_result ''tool_not_installed'') (\<lambda>tool.
     and_then (py_getitem ai_result ''install_command'') (\<lambda>install_cmd.
     and_then (py_get ai_result ''explanation'' (PStr [])) (\<lambda>explanation.
       Inr [OfferInstall tool install_cmd explanation])))"

definition execute_branch :: "executor \<Rightarrow> py \<Rightarrow> exn + action list" where
  "execute_branch execute_tool ai_result =
     and_then (py_getitem ai_result ''tool'') (\<lambda>tool_name.
     and_then (py_getitem ai_result ''parameters'') (\<lambda>parameters.
     and_then (py_get ai_result ''explanation'' (PStr ''Ejecutando...'')) (\<lambda>explanation.
       Inr (AnnounceTool explanation tool_name parameters # ReplyExecuting tool_name
              # run_tool execute_tool tool_name parameters))))"

definition reply_error :: "py \<Rightarrow> exn + action list" where
  "reply_error ai_result =
     and_then (py_getitem ai_result ''error'') (\<lambda>error.
     and_then (py_get ai_result ''suggestion'' (PStr [])) (\<lambda>suggestion.
       Inr [ReplyError error suggestion]))"

text \<open>
  The chain of tests on key presence, in the order of the source. \<open>Inl\<close> is an
  exception that leaves the handler.
\<close>

definition handle_ai_response :: "executor \<Rightarrow> py \<Rightarrow> exn + action list" where
  "handle_ai_response execute_tool ai_result =
     and_then (py_in ''conversation'' ai_result) (\<lambda>c.
       if c then reply_conversation ai_result else
     and_then (py_in ''question'' ai_result) (\<lambda>q.
       if q then reply_question ai_result else
     and_then (py_in ''tool_not_installed'' ai_result) (\<lambda>n.
       if n then offer_install ai_result else
     and_then (py_in ''tool'' ai_result) (\<lambda>t.
     and_then (if t then py_in ''parameters'' ai_result else Inr False) (\<lambda>p.
       if p then execute_branch execute_tool ai_result else
     and_then (py_in ''error'' ai_result) (\<lambda>e.
       if e then reply_error ai_result else Inr [ReplyUnknown]))))))"

text \<open>
  The classification in the words of the specification: the shapes are tried in a given
  order, the first one whose keys are present wins, and none gives \<open>Unknown\<close>.
\<close>

datatype shape = Conversation | Tool | Question | ToolNotInstalled | Error | Unknown

definition has_shape :: "(string \<times> py) list \<Rightarrow> shape \<Rightarrow> bool" where
  "has_shape d t =
     (case t of
        Conversation \<Rightarrow> ''conversation'' \<in> set (map fst d)
      | Tool \<Rightarrow> ''tool'' \<in> set (map fst d) \<and> ''parameters'' \<in> set (map fst d)
      | Question \<Rightarrow> ''question'' \<in> set (map fst d)
      | ToolNotInstalled \<Rightarrow> ''tool_not_installed'' \<in> set (map fst d)
      | Error \<Rightarrow> ''error'' \<in> set (map fst d)
      | Unknown \<Rightarrow> True)"

definition first_match :: "shape list \<Rightarrow> (string \<times> py) list \<Rightarrow> shape" where
  "first_match order d = (case filter (has_shape d) order of [] \<Rightarrow> Unknown | t # ts \<Rightarrow> t)"

definition claimed_order :: "shape list" where
  "claimed_order = [Conversation, Tool, Question, ToolNotInstalled, Error]"

definition source_order :: "shape list" where
  "source_order = [Conversation, Question, ToolNotInstalled, Tool, Error]"

text \<open>The shape a list of actions answers to, read off its first reply.\<close>

fun shape_of :: "action list \<Rightarrow> shape option" where
  "shape_of (ReplyConversation t # as) = Some Conversation"
| "shape_of (ReplyQuestion q s # as) = Some Question"
| "shape_of (OfferInstall t c e # as) = Some ToolNotInstalled"
| "shape_of (AnnounceTool e t p # as) = Some Tool"
| "shape_of (ReplyError e s # as) = Some Error"
| "shape_of (ReplyUnknown # as) = Some Unknown"
| "shape_of as = None"

definition executes :: "action list \<Rightarrow> bool" where
  "executes as = (\<exists>a \<in> set as. case a of ExecuteTool t p \<Rightarrow> True | _ \<Rightarrow> False)"

section \<open>A JSON decoder for concrete replies\<close>

text \<open>
  The theorems below hold for any \<open>json.loads\<close>. To apply them to concrete replies,
  here is a decoder of the JSON documents made of objects, arrays, strings without
  escapes, integers and the three literals. It stands for \<open>json.loads\<close> on these
  documents and on text that is no JSON; the fuel bounds the nesting and is taken from
  the length of the text.
\<close>

definition json_space :: "char \<Rightarrow> bool" where
  "json_space c = (c = CHR '' '' \<or> c = CHR 0x09 \<or> c = CHR 0x0A \<or> c = CHR 0x0D)"

definition skip_ws :: "string \<Rightarrow> string" where
  "skip_ws s = dropWhile json_space s"

fun scan_string :: "string \<Rightarrow> (string \<times> string) option" where
  "scan_string [] = None"
| "scan_string (c # cs) =
     (if c = CHR 0x22 then Some ([], cs)
      else if c = CHR 0x5C \<or> of_char c < (32 :: nat) then None
      else Option.bind (scan_string cs) (\<lambda>(s, r). Some (c # s, r)))"

definition is_digit :: "char \<Rightarrow> bool" where
  "is_digit c = (48 \<le> (of_char c :: nat) \<and> (of_char c :: nat) \<le> 57)"

definition digits_value :: "string \<Rightarrow> nat" where
  "digits_value ds = foldl (\<lambda>n c. 10 * n + (of_char c - 48)) 0 ds"

definition scan_int :: "string \<Rightarrow> (py \<times> string) option" where
  "scan_int s =
     (let neg = prefix ''-'' s;
          body = (if neg then tl s else s);
          ds = takeWhile is_digit body;
          r = dropWhile is_digit body
      in if ds = [] \<or> (length ds > 1 \<and> hd ds = CHR ''0'')
            \<or> prefix ''.'' r \<or> prefix ''e'' r \<or> prefix ''E'' r then None
         else Some (PInt (if neg then - int (digits_value ds) else int (digits_value ds)), r))"

text \<open>A repeated key keeps its first place and takes its last value, as a Python dictionary does.\<close>

definition dict_put_first :: "string \<Rightarrow> py \<Rightarrow> (string \<times> py) list \<Rightarrow> (string \<times> py) list" where
  "dict_put_first k v kvs =
     (k, case map_of kvs k of None \<Rightarrow> v | Some v' \<Rightarrow> v') # filter (\<lambda>kv. fst kv \<noteq> k) kvs"

fun decode_value :: "nat \<Rightarrow> string \<Rightarrow> (py \<times> string) option"
  and decode_members :: "nat \<Rightarrow> string \<Rightarrow> ((string \<times> py) list \<times> string) option"
  and decode_elements :: "nat \<Rightarrow> string \<Rightarrow> (py list \<times> string) option"
where
  "decode_value 0 s = None"
| "decode_value (Suc n) s =
     (case skip_ws s of
        [] \<Rightarrow> None
      | c # r \<Rightarrow>
          (if c = CHR ''{'' then
             (if prefix ''}'' (skip_ws r) then Some (PDict [], tl (skip_ws r))
              else Option.bind (decode_members n r) (\<lambda>(kvs, r'). Some (PDict kvs, r')))
           else if c = CHR ''['' then
             (if prefix '']'' (skip_ws r) then Some (PList [], tl (skip_ws r))
              else Option.bind (decode_elements n r) (\<lambda>(vs, r'). Some (PList vs, r')))
           else if c = CHR 0x22 then
             Option.bind (scan_string r) (\<lambda>(str, r'). Some (PStr str, r'))
           else if prefix ''true'' (c # r) then Some (PBool True, drop 4 (c # r))
           else if prefix ''false'' (c # r) then Some (PBool False, drop 5 (c # r))
           else if prefix ''null'' (c # r) then Some (PNone, drop 4 (c # r))
           else scan_int (c # r)))"
| "decode_members 0 s = None"
| "decode_members (Suc n) s =
     (if \<not> prefix [CHR 0x22] (skip_ws s) then None
      else
        Option.bind (scan_string (tl (skip_ws s))) (\<lambda>(k, r1).
          if \<not> prefix '':'' (skip_ws r1) then None
          else
            Option.bind (decode_value n (tl (skip_ws r1))) (\<lambda>(v, r2).
              if prefix ''}'' (skip_ws r2) then Some ([(k, v)], tl (skip_ws r2))
              else if prefix '','' (skip_ws r2) then
                Option.bind (decode_members n (tl (skip_ws r2))) (\<lambda>(kvs, r3).
                  Some (dict_put_first k v kvs, r3))
              else None)))"
| "decode_elements 0 s = None"
| "decode_elements (Suc n) s =
     Option.bind (decode_value n s) (\<lambda>(v, r).
       if prefix '']'' (skip_ws r) then Some ([v], tl (skip_ws r))
       else if prefix '','' (skip_ws r) then
         Option.bind (decode_elements n (tl (skip_ws r))) (\<lambda>(vs, r'). Some (v # vs, r'))
       else None)"

definition decode_json :: "string \<Rightarrow> exn + py" where
  "decode_json s =
     (case decode_value (Suc (length s)) s of
        None \<Rightarrow> Inl (JSONDecodeError ''Expecting value'')
      | Some (v, r) \<Rightarrow> if skip_ws r = [] then Inr v else Inl (JSONDecodeError ''Extra data''))"

section \<open>Concrete inputs\<close>

text \<open>
  The states, replies and environments at which the theorems below are applied. The
  decoder above stands for \<open>json.loads\<close>; \<open>repr\<close> is applied to no value in them,
  and the executor here fails on every tool.
\<close>

definition sample_builtins :: builtins where
  "sample_builtins = \<lparr>json_loads = decode_json, py_repr = type_name\<rparr>"

definition no_executor :: executor where
  "no_executor tool_name parameters = Inl (PyException ''tool failed'')"

definition hi_document :: string where
  \<open>hi_document = ''{"conversation":"hi"}''\<close>

definition fenced_hi :: string where
  "fenced_hi = ''```json'' @ [CHR 0x0A] @ hi_document @ [CHR 0x0A] @ ''```''"

definition bare_fenced_hi :: string where
  "bare_fenced_hi = ''  ```'' @ hi_document @ ''``` Anything else?''"

definition fenced_client :: assistant where
  "fenced_client =
     \<lparr>client = Some (\<lambda>messages. Replied fenced_hi), user_contexts = Map.empty,
      check_tool_installed = (\<lambda>v. True), system_prompt = ''sys''\<rparr>"

definition js_fenced_hi :: string where
  "js_fenced_hi = ''```js'' @ [CHR 0x0A] @ hi_document @ [CHR 0x0A] @ ''```''"

definition js_client :: assistant where
  "js_client =
     \<lparr>client = Some (\<lambda>messages. Replied js_fenced_hi), user_contexts = Map.empty,
      check_tool_installed = (\<lambda>v. True), system_prompt = ''sys''\<rparr>"

definition hola_reply :: string where
  \<open>hola_reply = ''{"conversation":"hola"}''\<close>

definition ten_entries :: "message list" where
  "ten_entries =
     [(User, ''a''), (Assistant, ''b''), (User, ''c''), (Assistant, ''d''), (User, ''e''),
      (Assistant, ''f''), (User, ''g''), (Assistant, ''h''), (User, ''i''), (Assistant, ''j'')]"

definition stored_ten :: assistant where
  "stored_ten =
     \<lparr>client = Some (\<lambda>messages. Replied hola_reply), user_contexts = [7 \<mapsto> ten_entries],
      check_tool_installed = (\<lambda>v. True), system_prompt = ''sys''\<rparr>"

definition twelve_entries :: "message list" where
  "twelve_entries =
     [(User, ''a''), (Assistant, ''b''), (User, ''c''), (Assistant, ''d''), (User, ''e''),
      (Assistant, ''f''), (User, ''g''), (Assistant, ''h''), (User, ''i''), (Assistant, ''j''),
      (User, ''k''), (Assistant, ''l'')]"

definition stored_twelve :: assistant where
  "stored_twelve =
     \<lparr>client = None, user_contexts = [7 \<mapsto> twelve_entries],
      check_tool_installed = (\<lambda>v. True), system_prompt = ''sys''\<rparr>"

definition failing_client :: assistant where
  "failing_client =
     \<lparr>client = Some (\<lambda>messages. Failed (PyException ''Connection error.'')),
      user_contexts = Map.empty,
      check_tool_installed = (\<lambda>v. True), system_prompt = ''sys''\<rparr>"

definition prose_client :: assistant where
  "prose_client =
     \<lparr>client = Some (\<lambda>messages. Replied ''Sure, I can scan that host.''),
      user_contexts = Map.empty,
      check_tool_installed = (\<lambda>v. True), system_prompt = ''sys''\<rparr>"

definition nmap_reply :: string where
  \<open>nmap_reply = ''{"tool":"nmap","parameters":{"target":"10.0.0.1"},"explanation":"scan"}''\<close>

definition nmap_asked :: "bool \<Rightarrow> assistant" where
  "nmap_asked present =
     \<lparr>client = Some (\<lambda>messages. Replied nmap_reply), user_contexts = Map.empty,
      check_tool_installed = (\<lambda>v. present), system_prompt = ''sys''\<rparr>"

definition mixed_reply :: string where
  \<open>mixed_reply = ''{"tool":"nmap","parameters":{"target":"10.0.0.1"},"conversation":"hi"}''\<close>

definition mixed_asked :: assistant where
  "mixed_asked =
     \<lparr>client = Some (\<lambda>messages. Replied mixed_reply), user_contexts = Map.empty,
      check_tool_installed = (\<lambda>v. True), system_prompt = ''sys''\<rparr>"

definition asking_reply :: string where
  \<open>asking_reply = ''{"tool":"nmap","parameters":{},"question":"Which host?"}''\<close>

definition asking :: assistant where
  "asking =
     \<lparr>client = Some (\<lambda>messages. Replied asking_reply), user_contexts = Map.empty,
      check_tool_installed = (\<lambda>v. True), system_prompt = ''sys''\<rparr>"

section \<open>Results of command execution\<close>

lemma timeout_message_mentions_timeout: "sublist ''timeout'' (timeout_message t)"
proof -
  have "timeout_message t =
          (''Comando excedi'' @ [CHR 0xF3] @ '' el '') @ ''timeout'' @ ('' de '' @ show_int t @ '' segundos'')"
    by (simp add: timeout_message_def)
  then show ?thesis
    by (simp only: sublist_appendI)
qed

text \<open>
  When \<open>process.kill()\<close> kills the process, a timeout gives success false, the
  message of the timeout, and a killed process, in both runners.
\<close>

lemma run_command_timeout_killed:
  "(sh command timeout = TimedOut Killed \<longrightarrow>
      killed (run_command sh command timeout)
      \<and> field (result (run_command sh command timeout)) ''success'' = Some (PBool False)
      \<and> field (result (run_command sh command timeout)) ''error''
          = Some (PStr (timeout_message timeout)))
   \<and> (sh (sudo_command pw use_sudo command) timeout = TimedOut Killed \<longrightarrow>
      killed (system_run_command pw sh command timeout use_sudo)
      \<and> field (result (system_run_command pw sh command timeout use_sudo)) ''success''
          = Some (PBool False)
      \<and> field (result (system_run_command pw sh command timeout use_sudo)) ''error''
          = Some (PStr (timeout_message timeout)))
   \<and> sublist ''timeout'' (timeout_message timeout)"
  by (simp add: run_command_def system_run_command_def field_def timeout_message_mentions_timeout)

text \<open>
  C7. The claim says that a subprocess that exceeds its timeout gives success false with
  an error message that contains "timeout", and that the process is killed. The code
  misses it when the process ends while the timeout fires: \<open>process.kill()\<close> then
  raises \<open>ProcessLookupError\<close> inside the outer \<open>try\<close>, and \<open>run_command\<close> (and
  \<open>_run_command\<close> alike) returns the empty text of that exception as the error, with
  nothing killed. Here at the command \<open>sleep 1\<close> with a timeout of one second.
\<close>

theorem run_command_kill_race:
  "result (run_command (\<lambda>c t. TimedOut (KillRaised [])) ''sleep 1'' 1)
     = PDict [(''success'', PBool False), (''command'', PStr ''sleep 1''), (''error'', PStr [])]
   \<and> \<not> killed (run_command (\<lambda>c t. TimedOut (KillRaised [])) ''sleep 1'' 1)
   \<and> result (system_run_command [] (\<lambda>c t. TimedOut (KillRaised [])) ''sleep 1'' 1 False)
     = PDict [(''success'', PBool False), (''command'', PStr ''sleep 1''), (''error'', PStr [])]
   \<and> \<not> killed (system_run_command [] (\<lambda>c t. TimedOut (KillRaised [])) ''sleep 1'' 1 False)
   \<and> \<not> sublist ''timeout'' []"
  by (simp add: run_command_def system_run_command_def sudo_command_def)

text \<open>
  C10. \<open>run_command\<close> returns a dictionary whatever the subprocess does: "success" is a
  boolean and "command" is there; success is true exactly when the subprocess completed
  within the timeout, whatever its return code, and then stdout, stderr and returncode
  are there; otherwise success is false and "error" is a string. The same holds of
  \<open>_run_command\<close> of the system manager.
\<close>

theorem run_command_total:
  fixes sh :: shell and command pw :: string and timeout :: int and use_sudo :: bool
  defines "r \<equiv> result (run_command sh command timeout)"
    and "r' \<equiv> result (system_run_command pw sh command timeout use_sudo)"
    and "p \<equiv> sh command timeout"
    and "p' \<equiv> sh (sudo_command pw use_sudo command) timeout"
  shows "is_bool (field r ''success'') \<and> field r ''command'' = Some (PStr command)
       \<and> (field r ''success'' = Some (PBool True) \<longleftrightarrow> completed p)
       \<and> (\<forall>out err rc. p = Completed out err rc \<longrightarrow>
              field r ''stdout'' = Some (PStr out) \<and> field r ''stderr'' = Some (PStr err)
              \<and> field r ''returncode'' = Some (PInt rc))
       \<and> (\<not> completed p \<longrightarrow>
              field r ''success'' = Some (PBool False) \<and> is_str (field r ''error''))
       \<and> is_bool (field r' ''success'') \<and> is_str (field r' ''command'')
       \<and> (field r' ''success'' = Some (PBool True) \<longleftrightarrow> completed p')
       \<and> (\<forall>out err rc. p' = Completed out err rc \<longrightarrow>
              field r' ''stdout'' = Some (PStr out) \<and> field r' ''stderr'' = Some (PStr err)
              \<and> field r' ''returncode'' = Some (PInt rc))
       \<and> (\<not> completed p' \<longrightarrow>
              field r' ''success'' = Some (PBool False) \<and> is_str (field r' ''error''))"
proof -
  have a: "is_bool (field r ''success'') \<and> field r ''command'' = Some (PStr command)
       \<and> (field r ''success'' = Some (PBool True) \<longleftrightarrow> completed p)
       \<and> (\<forall>out err rc. p = Completed out err rc \<longrightarrow>
              field r ''stdout'' = Some (PStr out) \<and> field r ''stderr'' = Some (PStr err)
              \<and> field r ''returncode'' = Some (PInt rc))
       \<and> (\<not> completed p \<longrightarrow>
              field r ''success'' = Some (PBool False) \<and> is_str (field r ''error''))"
    unfolding r_def p_def
    by (cases "sh command timeout")
       (simp_all add: run_command_def field_def is_bool_def is_str_def completed_def
          split: kill_outcome.splits)
  have b: "is_bool (field r' ''success'') \<and> is_str (field r' ''command'')
       \<and> (field r' ''success'' = Some (PBool True) \<longleftrightarrow> completed p')
       \<and> (\<forall>out err rc. p' = Completed out err rc \<longrightarrow>
              field r' ''stdout'' = Some (PStr out) \<and> field r' ''stderr'' = Some (PStr err)
              \<and> field r' ''returncode'' = Some (PInt rc))
       \<and> (\<not> completed p' \<longrightarrow>
              field r' ''success'' = Some (PBool False) \<and> is_str (field r' ''error''))"
    unfolding r'_def p'_def
    by (cases "sh (sudo_command pw use_sudo command) timeout")
       (simp_all add: system_run_command_def Let_def field_def is_bool_def is_str_def
          completed_def split: kill_outcome.splits)
  from a b show ?thesis by simp
qed

theorem run_command_total_witness:
  "completed (Completed [] ''ls: cannot access'' 2)
   \<and> field (result (run_command (\<lambda>c t. Completed [] ''ls: cannot access'' 2) ''ls /nope'' 300))
         ''success'' = Some (PBool True)
   \<and> field (result (run_command (\<lambda>c t. Completed [] ''ls: cannot access'' 2) ''ls /nope'' 300))
         ''returncode'' = Some (PInt 2)
   \<and> \<not> completed (Raised ''spawn failed'')
   \<and> field (result (run_command (\<lambda>c t. Raised ''spawn failed'') ''ls /nope'' 300))
         ''success'' = Some (PBool False)
   \<and> is_str (field (result (run_command (\<lambda>c t. Raised ''spawn failed'') ''ls /nope'' 300))
         ''error'')"
  using run_command_total [of "\<lambda>c t. Completed [] ''ls: cannot access'' 2" "''ls /nope''" 300 "[]" False]
    run_command_total [of "\<lambda>c t. Raised ''spawn failed''" "''ls /nope''" 300 "[]" False]
  by (simp add: completed_def)

section \<open>Redaction of the root password\<close>

lemma sublist_across_foreign:
  assumes "c \<notin> set sep" and "sublist sep (x @ c # y)"
  shows "sublist sep x \<or> sublist sep y"
  using assms
  by (auto simp: sublist_append sublist_Cons_right prefix_Cons)

lemma sublist_across_mask:
  assumes "CHR ''*'' \<notin> set sep" and "sublist sep (x @ ''***'' @ y)"
  shows "sublist sep x \<or> sublist sep y"
proof -
  from assms have "sublist sep x \<or> sublist sep (''**'' @ y)"
    using sublist_across_foreign [of "CHR ''*''" sep x "''**'' @ y"] by simp
  moreover have "sublist sep (''**'' @ y) \<Longrightarrow> sublist sep y"
    using assms(1) sublist_across_foreign [of "CHR ''*''" sep "[]" "''*'' @ y"]
      sublist_across_foreign [of "CHR ''*''" sep "[]" "y"]
    by (cases sep) auto
  ultimately show ?thesis by blast
qed

lemma py_partition_None: "py_partition sep s = None \<Longrightarrow> \<not> sublist sep s"
  by (induction s) (auto split: if_splits option.splits simp: sublist_Cons_right)

lemma py_partition_before:
  "sep \<noteq> [] \<Longrightarrow> py_partition sep s = Some (b, a) \<Longrightarrow> \<not> sublist sep b"
proof (induction s arbitrary: b)
  case Nil
  then show ?case by simp
next
  case (Cons c cs)
  show ?case
  proof (cases "prefix sep (c # cs)")
    case True
    with Cons.prems show ?thesis by simp
  next
    case False
    with Cons.prems obtain b' where p: "py_partition sep cs = Some (b', a)" and b: "b = c # b'"
      by (auto split: option.splits)
    from p have cs: "cs = b' @ sep @ a" by (rule py_partition_Some)
    have "\<not> prefix sep (c # b')"
      using False cs by (metis append_Cons prefix_order.trans prefixI)
    moreover have "\<not> sublist sep b'" using Cons.IH [OF Cons.prems(1) p] .
    ultimately show ?thesis by (simp add: b sublist_Cons_right)
  qed
qed

lemma split_at_not_Nil: "split_at sep s \<noteq> []"
  by (subst split_at.simps) (simp split: option.splits)

lemma replace_hides:
  assumes "old \<noteq> []" and "CHR ''*'' \<notin> set old"
  shows "\<not> sublist old (py_join ''***'' (split_at old s))"
  using assms
proof (induction old s rule: split_at.induct)
  case (1 sep s)
  show ?case
  proof (cases "py_partition sep s")
    case None
    then have "split_at sep s = [s]" using "1.prems" by (simp add: split_at.simps)
    with None show ?thesis by (simp add: py_partition_None)
  next
    case (Some ba)
    obtain b a where ba: "ba = (b, a)" by (cases ba)
    have sp: "split_at sep s = b # split_at sep a"
      using Some ba "1.prems" by (subst split_at.simps) simp
    obtain q qs where pps: "split_at sep a = q # qs"
      using split_at_not_Nil [of sep a] by (cases "split_at sep a") auto
    have j: "py_join ''***'' (split_at sep s) = b @ ''***'' @ py_join ''***'' (split_at sep a)"
      by (simp add: sp pps)
    have c: "(if sep = [] then None else py_partition sep s) = Some ba"
      using Some "1.prems"(1) by simp
    have ih: "\<not> sublist sep (py_join ''***'' (split_at sep a))"
      by (rule "1.IH" [OF c ba [symmetric] "1.prems"])
    have "\<not> sublist sep b" using py_partition_before [OF "1.prems"(1)] Some ba by simp
    with ih show ?thesis
      unfolding j using sublist_across_mask [OF "1.prems"(2)] by blast
  qed
qed

lemma redact_hides:
  "pw \<noteq> [] \<Longrightarrow> CHR ''*'' \<notin> set pw \<Longrightarrow> \<not> sublist pw (redact pw command)"
  by (simp add: redact_def py_replace_def replace_hides)

text \<open>
  C8, as the code has it. \<open>_run_command\<close> of the system manager, when the subprocess
  completes, or times out and is killed, and the configured root password is not empty
  and has no asterisk in it, returns as "command" the executed command with every
  occurrence of the password replaced by three asterisks, and the password does not
  occur in it. \<open>run_command\<close> of the tool executor has no redaction: its "command" is
  the command it was given.
\<close>

theorem system_run_command_redacts:
  assumes "pw \<noteq> []" and "CHR ''*'' \<notin> set pw"
    and "completed (sh (sudo_command pw use_sudo command) timeout)
         \<or> sh (sudo_command pw use_sudo command) timeout = TimedOut Killed"
  shows "field (result (system_run_command pw sh command timeout use_sudo)) ''command''
           = Some (PStr (py_replace pw ''***'' (sudo_command pw use_sudo command)))
       \<and> \<not> sublist pw (py_replace pw ''***'' (sudo_command pw use_sudo command))
       \<and> field (result (run_command sh command timeout)) ''command'' = Some (PStr command)"
proof -
  have "\<not> sublist pw (py_replace pw ''***'' (sudo_command pw use_sudo command))"
    using redact_hides [OF assms(1,2)] assms(1) by (simp add: redact_def)
  moreover have "field (result (system_run_command pw sh command timeout use_sudo)) ''command''
           = Some (PStr (py_replace pw ''***'' (sudo_command pw use_sudo command)))"
    using assms(1,3)
    by (cases "sh (sudo_command pw use_sudo command) timeout")
       (auto simp: system_run_command_def field_def redact_def completed_def)
  moreover have "field (result (run_command sh command timeout)) ''command'' = Some (PStr command)"
    by (cases "sh command timeout")
       (simp_all add: run_command_def field_def split: kill_outcome.splits)
  ultimately show ?thesis by simp
qed

theorem system_run_command_redacts_witness:
  "(\<lambda>c t. TimedOut Killed) (sudo_command ''hunter2'' True ''apt-get install nmap'') (1800 :: int)
     = TimedOut Killed
   \<and> field (result (system_run_command ''hunter2'' (\<lambda>c t. TimedOut Killed)
                     ''apt-get install nmap'' 1800 True)) ''command''
     = Some (PStr (''echo '' @ [CHR 0x22] @ ''***'' @ [CHR 0x22] @ '' | sudo -S apt-get install nmap''))
   \<and> \<not> sublist ''hunter2''
         (''echo '' @ [CHR 0x22] @ ''***'' @ [CHR 0x22] @ '' | sudo -S apt-get install nmap'')
   \<and> field (result (run_command (\<lambda>c t. TimedOut Killed) ''apt-get install nmap'' 1800)) ''command''
     = Some (PStr ''apt-get install nmap'')"
proof -
  have e: "py_replace ''hunter2'' ''***'' (sudo_command ''hunter2'' True ''apt-get install nmap'')
             = ''echo '' @ [CHR 0x22] @ ''***'' @ [CHR 0x22] @ '' | sudo -S apt-get install nmap''"
    by code_simp
  show ?thesis
    using system_run_command_redacts
      [of "''hunter2''" "\<lambda>c t. TimedOut Killed" True "''apt-get install nmap''" 1800]
    by (simp add: e)
qed

text \<open>
  The claim as stated fails on \<open>run_command\<close>: with the root password \<open>hunter2\<close>
  configured, the command \<open>echo hunter2\<close> comes back unchanged in the result.
\<close>

theorem run_command_keeps_password:
  "field (result (run_command (\<lambda>c t. Completed ''hunter2'' [] 0) ''echo hunter2'' 300)) ''command''
     = Some (PStr ''echo hunter2'')
   \<and> sublist ''hunter2'' ''echo hunter2''"
  by (simp add: run_command_def field_def sublist_Cons_right)

text \<open>
  Apart from that, when spawning the shell raises, or when \<open>process.kill()\<close> raises
  after a timeout, \<open>_run_command\<close> returns the rebuilt command as it is, password
  included, where its two other branches redact it.
\<close>

lemma system_run_command_raise_keeps_password:
  "field (result (system_run_command ''hunter2'' (\<lambda>c t. Raised ''spawn failed'')
                    ''apt-get install nmap'' 1800 True)) ''command''
     = Some (PStr (''echo '' @ [CHR 0x22] @ ''hunter2'' @ [CHR 0x22] @ '' | sudo -S apt-get install nmap''))
   \<and> field (result (system_run_command ''hunter2'' (\<lambda>c t. TimedOut (KillRaised []))
                    ''apt-get install nmap'' 1800 True)) ''command''
     = Some (PStr (''echo '' @ [CHR 0x22] @ ''hunter2'' @ [CHR 0x22] @ '' | sudo -S apt-get install nmap''))
   \<and> sublist ''hunter2''
         (''echo '' @ [CHR 0x22] @ ''hunter2'' @ [CHR 0x22] @ '' | sudo -S apt-get install nmap'')"
  by (simp add: system_run_command_def sudo_command_def field_def sublist_Cons_right)

text \<open>
  A password that overlaps with the mask can come back: with the password \<open>a*\<close>,
  the command \<open>aa*\<close> is redacted to \<open>a***\<close>.
\<close>

lemma redaction_leaves_overlapping_password:
  "field (result (system_run_command ''a*'' (\<lambda>c t. Completed [] [] 0) ''aa*'' 300 False)) ''command''
     = Some (PStr ''a***'')
   \<and> sublist ''a*'' ''a***''"
  by code_simp

section \<open>Splitting long output\<close>

lemma concat_send_chunks: "concat (send_chunks i out) = drop i out"
proof (induction i out rule: send_chunks.induct)
  case (1 i out)
  show ?case
  proof (cases "i < length out")
    case True
    have e: "take 4000 (drop i out) @ drop (i + 4000) out = drop i out"
      using append_take_drop_id [of 4000 "drop i out"] by (simp add: add.commute)
    have "concat (send_chunks i out) = take 4000 (drop i out) @ drop (i + 4000) out"
      using True "1.IH" by (subst send_chunks.simps) (simp add: py_slice_def)
    then show ?thesis by (simp only: e)
  next
    case False
    then show ?thesis
      by (subst send_chunks.simps) simp
  qed
qed

lemma send_chunks_bound: "c \<in> set (send_chunks i out) \<Longrightarrow> length c \<le> 4000 \<and> c \<noteq> []"
proof (induction i out rule: send_chunks.induct)
  case (1 i out)
  show ?case
  proof (cases "i < length out")
    case True
    from "1.prems" True
    have "c = py_slice i (i + 4000) out \<or> c \<in> set (send_chunks (i + 4000) out)"
      by (subst (asm) send_chunks.simps) simp
    then show ?thesis
    proof
      assume "c = py_slice i (i + 4000) out"
      with True show ?thesis by (simp add: py_slice_def)
    next
      assume "c \<in> set (send_chunks (i + 4000) out)"
      with True "1.IH" show ?thesis by simp
    qed
  next
    case False
    with "1.prems" show ?thesis
      by (subst (asm) send_chunks.simps) simp
  qed
qed

lemma length_send_chunks:
  "length (send_chunks i out) = (length out - i + 3999) div 4000"
proof (induction i out rule: send_chunks.induct)
  case (1 i out)
  show ?case
  proof (cases "i < length out")
    case True
    then have "length (send_chunks i out) = Suc ((length out - (i + 4000) + 3999) div 4000)"
      using "1.IH" by (subst send_chunks.simps) simp
    also have "\<dots> = (length out - i + 3999) div 4000"
      using True by (cases "i + 4000 \<le> length out") (simp_all add: div_nat_eqI)
    finally show ?thesis .
  next
    case False
    then show ?thesis
      by (subst send_chunks.simps) simp
  qed
qed

text \<open>
  C9. An output of more than 4000 characters goes out in consecutive chunks of at most
  4000 characters each, one reply per chunk, whose concatenation in order is the
  output; an output of 9000 characters makes exactly 3 replies.
\<close>

theorem split_output_chunks:
  fixes out :: string
  assumes "length out > 4000"
  shows "send_output (PStr out) = Inr (map (\<lambda>c. ReplyOutput (PStr c)) (split_output out))
       \<and> (\<forall>c \<in> set (split_output out). length c \<le> 4000 \<and> c \<noteq> [])
       \<and> concat (split_output out) = out
       \<and> length (split_output out) = (length out + 3999) div 4000
       \<and> (length out = 9000 \<longrightarrow> length (split_output out) = 3)"
proof -
  have s: "split_output out = send_chunks 0 out"
    using assms by (simp add: split_output_def)
  have "\<forall>c \<in> set (split_output out). length c \<le> 4000 \<and> c \<noteq> []"
    unfolding s using send_chunks_bound by blast
  moreover have "concat (split_output out) = out"
    unfolding s by (simp add: concat_send_chunks)
  moreover have l: "length (split_output out) = (length out + 3999) div 4000"
    unfolding s by (simp add: length_send_chunks)
  moreover have "length out = 9000 \<longrightarrow> length (split_output out) = 3"
    using l by simp
  moreover have "send_output (PStr out)
                   = Inr (map (\<lambda>c. ReplyOutput (PStr c)) (split_output out))"
    by (simp add: send_output_def)
  ultimately show ?thesis by blast
qed

theorem split_output_chunks_witness:
  "length (replicate 9000 (CHR ''A'')) > 4000
   \<and> concat (split_output (replicate 9000 (CHR ''A''))) = replicate 9000 (CHR ''A'')
   \<and> length (split_output (replicate 9000 (CHR ''A''))) = 3"
  using split_output_chunks [of "replicate 9000 (CHR ''A'')"]
  by simp

section \<open>The conversation store\<close>

text \<open>
  C5. When a user's stored history has more than \<open>AI_MAX_CONTEXT = 10\<close> entries, the
  context read for the request is exactly its last 10 entries, in their order; for a
  user without stored history it is empty, and nothing is raised.
\<close>

theorem recent_context_last_entries:
  "AI_MAX_CONTEXT = 10
   \<and> (AI_MAX_CONTEXT < length (get_context st uid) \<longrightarrow>
        (\<exists>older recent. get_context st uid = older @ recent \<and> length recent = AI_MAX_CONTEXT
           \<and> build_messages st msg uid = (System, system_prompt st) # recent @ [(User, msg)]))
   \<and> (user_contexts st uid = None \<longrightarrow>
        build_messages st msg uid = [(System, system_prompt st), (User, msg)])"
proof -
  have "\<exists>older recent. get_context st uid = older @ recent \<and> length recent = AI_MAX_CONTEXT
           \<and> build_messages st msg uid = (System, system_prompt st) # recent @ [(User, msg)]"
    if "AI_MAX_CONTEXT < length (get_context st uid)"
  proof (intro exI conjI)
    let ?ctx = "get_context st uid"
    show "?ctx = take (length ?ctx - 10) ?ctx @ drop (length ?ctx - 10) ?ctx" by simp
    show "length (drop (length ?ctx - 10) ?ctx) = AI_MAX_CONTEXT"
      using that by (simp add: AI_MAX_CONTEXT_def)
    show "build_messages st msg uid
            = (System, system_prompt st) # drop (length ?ctx - 10) ?ctx @ [(User, msg)]"
      by (simp add: build_messages_def last_entries_def AI_MAX_CONTEXT_def)
  qed
  moreover have "build_messages st msg uid = [(System, system_prompt st), (User, msg)]"
    if "user_contexts st uid = None"
    using that by (simp add: build_messages_def last_entries_def get_context_def)
  ultimately show ?thesis by (simp add: AI_MAX_CONTEXT_def)
qed

theorem recent_context_last_entries_witness:
  "AI_MAX_CONTEXT < length (get_context stored_twelve 7)
   \<and> build_messages stored_twelve ''hola'' 7
       = (System, ''sys'')
           # [(User, ''c''), (Assistant, ''d''), (User, ''e''), (Assistant, ''f''), (User, ''g''),
            (Assistant, ''h''), (User, ''i''), (Assistant, ''j''), (User, ''k''), (Assistant, ''l'')]
           @ [(User, ''hola'')]
   \<and> user_contexts stored_twelve 8 = None
   \<and> build_messages stored_twelve ''hola'' 8 = [(System, ''sys''), (User, ''hola'')]"
proof -
  have c: "get_context stored_twelve 7 = twelve_entries"
    by (simp add: get_context_def stored_twelve_def)
  have n: "user_contexts stored_twelve 8 = None"
    by (simp add: stored_twelve_def)
  have l: "AI_MAX_CONTEXT < length (get_context stored_twelve 7)"
    by (simp add: c twelve_entries_def AI_MAX_CONTEXT_def)
  from recent_context_last_entries [of stored_twelve 7 "''hola''"] l
  obtain older recent where o: "twelve_entries = older @ recent" "length recent = 10"
    and b: "build_messages stored_twelve ''hola'' 7
              = (System, system_prompt stored_twelve) # recent @ [(User, ''hola'')]"
    unfolding c by auto
  have "recent = drop (length twelve_entries - length recent) twelve_entries"
    unfolding o(1) by simp
  also have "length twelve_entries - length recent = 2"
    unfolding o(2) by (simp add: twelve_entries_def)
  finally have "recent = drop 2 twelve_entries" .
  then have r: "recent = [(User, ''c''), (Assistant, ''d''), (User, ''e''), (Assistant, ''f''), (User, ''g''),
            (Assistant, ''h''), (User, ''i''), (Assistant, ''j''), (User, ''k''), (Assistant, ''l'')]"
    by (simp add: twelve_entries_def)
  have s: "system_prompt stored_twelve = ''sys''" by (simp add: stored_twelve_def)
  from recent_context_last_entries [of stored_twelve 8 "''hola''"] n
  have "build_messages stored_twelve ''hola'' 8 = [(System, ''sys''), (User, ''hola'')]"
    by (simp add: s)
  with l n b r s show ?thesis by simp
qed

lemma chat_stores:
  assumes "client st = Some complete"
    and "complete (build_messages st msg uid) = Replied content"
  shows "snd (chat bi st msg uid) = store_exchange st uid msg (py_strip content)"
  using assms by (simp add: chat_def Let_def split: sum.splits)

lemma get_context_store_exchange:
  "get_context (store_exchange st uid msg reply) u
     = (if u = uid then get_context st uid @ [(User, msg), (Assistant, reply)]
        else get_context st u)"
  by (simp add: get_context_def store_exchange_def)

text \<open>
  C4, as the code has it. A chat whose model call returns appends the user's message
  and the reply to the user's stored history and evicts nothing: the stored history
  grows by two entries, and the other users' histories stay as they are. The maximum
  bounds what is read from the history for a request, not what is stored.
\<close>

theorem chat_appends_exchange:
  assumes "client st = Some complete"
    and "complete (build_messages st msg uid) = Replied content"
  shows "get_context (snd (chat bi st msg uid)) uid
           = get_context st uid @ [(User, msg), (Assistant, py_strip content)]
       \<and> length (get_context (snd (chat bi st msg uid)) uid) = length (get_context st uid) + 2
       \<and> (\<forall>u. u \<noteq> uid \<longrightarrow> get_context (snd (chat bi st msg uid)) u = get_context st u)
       \<and> length (last_entries AI_MAX_CONTEXT (get_context (snd (chat bi st msg uid)) uid))
           \<le> AI_MAX_CONTEXT"
  by (simp add: chat_stores [OF assms] get_context_store_exchange last_entries_def
        AI_MAX_CONTEXT_def)


text \<open>
  The claim as stated fails: a user with ten stored entries has twelve after one more
  exchange, and none is evicted.
\<close>

theorem stored_history_exceeds_maximum:
  "get_context (snd (chat sample_builtins stored_ten ''hola'' 7)) 7
     = ten_entries @ [(User, ''hola''), (Assistant, hola_reply)]
   \<and> length (get_context (snd (chat sample_builtins stored_ten ''hola'' 7)) 7) = 12
   \<and> AI_MAX_CONTEXT = 10"
proof -
  have c: "client stored_ten = Some (\<lambda>messages. Replied hola_reply)"
    by (simp add: stored_ten_def)
  have s: "py_strip hola_reply = hola_reply"
    unfolding hola_reply_def by code_simp
  have g: "get_context stored_ten 7 = ten_entries"
    by (simp add: get_context_def stored_ten_def)
  have "snd (chat sample_builtins stored_ten ''hola'' 7)
          = store_exchange stored_ten 7 ''hola'' hola_reply"
    using chat_stores [OF c, where msg = "''hola''" and uid = 7 and content = hola_reply
        and bi = sample_builtins]
    by (simp add: s)
  then show ?thesis
    by (simp add: get_context_store_exchange g ten_entries_def AI_MAX_CONTEXT_def)
qed


theorem chat_appends_exchange_witness:
  "client stored_ten = Some (\<lambda>messages. Replied hola_reply)
   \<and> get_context (snd (chat sample_builtins stored_ten ''hola'' 8)) 8
       = [(User, ''hola''), (Assistant, hola_reply)]
   \<and> get_context (snd (chat sample_builtins stored_ten ''hola'' 8)) 7 = ten_entries"
proof -
  have c: "client stored_ten = Some (\<lambda>messages. Replied hola_reply)"
    by (simp add: stored_ten_def)
  have s: "py_strip hola_reply = hola_reply"
    unfolding hola_reply_def by code_simp
  have g: "get_context stored_ten 7 = ten_entries" "get_context stored_ten 8 = []"
    by (simp_all add: get_context_def stored_ten_def)
  show ?thesis
    using chat_appends_exchange [OF c, where msg = "''hola''" and uid = 8 and content = hola_reply
        and bi = sample_builtins]
    by (simp add: c s g)
qed

section \<open>Failures of the model call and of the parser\<close>

lemma parse_ai_response_dict:
  "parse_ai_response loads response = Inr v \<Longrightarrow> \<exists>d. v = PDict d"
  by (auto simp: parse_ai_response_def and_then_def split: sum.splits py.splits)

lemma check_tool_dict:
  "check_tool repr installed (PDict d) = Inr v \<Longrightarrow> \<exists>d'. v = PDict d'"
  by (auto simp: check_tool_def and_then_def split: sum.splits if_splits)

lemma chat_returns_dict: "\<exists>d. fst (chat bi st msg uid) = PDict d"
proof (cases "client st")
  case None
  then show ?thesis by (simp add: chat_def error_unavailable_def)
next
  case (Some complete)
  show ?thesis
  proof (cases "complete (build_messages st msg uid)")
    case (Failed e)
    with Some show ?thesis
      by (cases e) (simp_all add: chat_def except_clauses_def error_parse_def error_general_def)
  next
    case (Replied content)
    show ?thesis
    proof (cases "parse_ai_response (json_loads bi) (py_strip content)")
      case (Inl e)
      with Some Replied show ?thesis
        by (cases e)
           (simp_all add: chat_def and_then_def except_clauses_def error_parse_def
              error_general_def)
    next
      case (Inr parsed)
      then obtain d where d: "parsed = PDict d"
        using parse_ai_response_dict by blast
      show ?thesis
      proof (cases "check_tool (py_repr bi) (check_tool_installed st) (PDict d)")
        case (Inl e)
        with Some Replied Inr d show ?thesis
          by (cases e)
             (simp_all add: chat_def and_then_def except_clauses_def error_parse_def
                error_general_def)
      next
        case r: (Inr answer)
        then obtain d' where "answer = PDict d'"
          using check_tool_dict by blast
        with Some Replied Inr d r show ?thesis
          by (simp add: chat_def and_then_def)
      qed
    qed
  qed
qed

text \<open>
  C3. A failure of the model call and a reply that the parser cannot decode both come
  back from \<open>chat\<close> as a dictionary with an "error" message, and so does a missing
  client; \<open>chat\<close> returns a dictionary on every path, so nothing is raised to the
  transport layer.
\<close>

theorem chat_surfaces_failures:
  "(client st = None \<longrightarrow> fst (chat bi st msg uid) = error_unavailable)
   \<and> (client st = Some complete \<and> complete (build_messages st msg uid) = Failed e \<longrightarrow>
        fst (chat bi st msg uid) = except_clauses e)
   \<and> (client st = Some complete \<and> complete (build_messages st msg uid) = Replied content
        \<and> parse_ai_response (json_loads bi) (py_strip content) = Inl e \<longrightarrow>
        fst (chat bi st msg uid) = except_clauses e)
   \<and> except_clauses (JSONDecodeError m) = error_parse
   \<and> except_clauses (PyException m) = error_general m
   \<and> field error_unavailable ''error'' = Some (PStr ''IA no disponible'')
   \<and> field error_parse ''error'' = Some (PStr ''Error al parsear respuesta de IA'')
   \<and> field (error_general m) ''error'' = Some (PStr (''Error de IA: '' @ m))
   \<and> is_str (field (except_clauses e) ''error'')
   \<and> (\<exists>d. fst (chat bi st msg uid) = PDict d)"
proof -
  have "is_str (field (except_clauses e) ''error'')"
    by (cases e)
       (simp_all add: except_clauses_def field_def is_str_def error_parse_def error_general_def)
  then show ?thesis
    using chat_returns_dict [of bi st msg uid]
    by (simp add: chat_def and_then_def except_clauses_def field_def error_general_def
          error_parse_def error_unavailable_def)
qed

theorem chat_surfaces_failures_witness:
  "client failing_client = Some (\<lambda>messages. Failed (PyException ''Connection error.''))
   \<and> fst (chat sample_builtins failing_client ''hola'' 7)
       = PDict [(''error'', PStr ''Error de IA: Connection error.''),
                (''suggestion'', PStr ''Intenta de nuevo o usa comandos directos'')]
   \<and> client prose_client = Some (\<lambda>messages. Replied ''Sure, I can scan that host.'')
   \<and> parse_ai_response (json_loads sample_builtins) (py_strip ''Sure, I can scan that host.'')
       = Inl (JSONDecodeError ''Expecting value'')
   \<and> fst (chat sample_builtins prose_client ''hola'' 7) = error_parse"
proof -
  have a: "client failing_client = Some (\<lambda>messages. Failed (PyException ''Connection error.''))"
    by (simp add: failing_client_def)
  have b: "client prose_client = Some (\<lambda>messages. Replied ''Sure, I can scan that host.'')"
    by (simp add: prose_client_def)
  have p: "parse_ai_response (json_loads sample_builtins) (py_strip ''Sure, I can scan that host.'')
             = Inl (JSONDecodeError ''Expecting value'')"
    by code_simp
  show ?thesis
    using chat_surfaces_failures [where st = failing_client
        and complete = "\<lambda>messages. Failed (PyException ''Connection error.'')"
        and msg = "''hola''" and uid = 7 and e = "PyException ''Connection error.''"
        and bi = sample_builtins and m = "''Connection error.''"]
      chat_surfaces_failures [where st = prose_client
        and complete = "\<lambda>messages. Replied ''Sure, I can scan that host.''"
        and msg = "''hola''" and uid = 7 and e = "JSONDecodeError ''Expecting value''"
        and bi = sample_builtins and content = "''Sure, I can scan that host.''"
        and m = "''Expecting value''"]
    by (simp add: a b p error_general_def)
qed

section \<open>The availability check\<close>

lemma key_in_dict: "k \<in> fst ` set d \<longleftrightarrow> map_of d k \<noteq> None"
  by (simp add: map_of_eq_None_iff)

text \<open>
  C1, as the code has it. Take a parsed reply that has "tool" with a name that is not a
  list or an object. When the availability check reports the tool absent, \<open>chat\<close>
  returns the tool_not_installed dictionary with that name and an install command (for
  a string, the entry of the table of \<open>suggest_install\<close>, or \<open>sudo apt install\<close> and
  the name), and the dispatcher offers the installation and executes nothing. When the
  check reports the tool present, \<open>chat\<close> returns the reply as it was parsed; the
  dispatcher announces and executes the tool of that name with the reply's parameters
  when the reply has "parameters" and none of "conversation", "question" and
  "tool_not_installed".
\<close>

theorem chat_tool_availability:
  assumes "client st = Some complete"
    and "complete (build_messages st msg uid) = Replied content"
    and "parse_ai_response (json_loads bi) (py_strip content) = Inr (PDict d)"
    and "map_of d ''tool'' = Some name"
    and "py_hashable name"
  shows "(\<not> check_tool_installed st name \<longrightarrow>
            (\<exists>cmd explanation.
               fst (chat bi st msg uid)
                 = PDict [(''tool_not_installed'', name), (''install_command'', PStr cmd),
                          (''offer_install'', PBool True), (''explanation'', PStr explanation)]
               \<and> (\<forall>s. name = PStr s \<longrightarrow>
                      cmd = (case map_of install_commands s of
                               Some c \<Rightarrow> c | None \<Rightarrow> ''sudo apt install '' @ s)
                      \<and> explanation = not_installed_explanation s)
               \<and> handle_ai_response ex (fst (chat bi st msg uid))
                   = Inr [OfferInstall name (PStr cmd) (PStr explanation)]
               \<and> \<not> executes [OfferInstall name (PStr cmd) (PStr explanation)]))
       \<and> (check_tool_installed st name \<longrightarrow>
            fst (chat bi st msg uid) = PDict d
            \<and> (map_of d ''parameters'' = Some ps \<and> map_of d ''conversation'' = None
                 \<and> map_of d ''question'' = None \<and> map_of d ''tool_not_installed'' = None \<longrightarrow>
                 (\<exists>explanation replies.
                    handle_ai_response ex (PDict d)
                      = Inr (AnnounceTool explanation name ps # ReplyExecuting name
                               # ExecuteTool name ps # replies))))"
proof -
  define cmd where "cmd =
    (case name of
       PStr s \<Rightarrow> (case map_of install_commands s of
                    Some c \<Rightarrow> c | None \<Rightarrow> ''sudo apt install '' @ py_str (py_repr bi) name)
     | _ \<Rightarrow> ''sudo apt install '' @ py_str (py_repr bi) name)"
  define explanation where "explanation = not_installed_explanation (py_str (py_repr bi) name)"
  let ?offer = "PDict [(''tool_not_installed'', name), (''install_command'', PStr cmd),
                       (''offer_install'', PBool True), (''explanation'', PStr explanation)]"
  have k: "''tool'' \<in> fst ` set d"
    using assms(4) by (simp add: key_in_dict)
  have absent: "check_tool (py_repr bi) (check_tool_installed st) (PDict d) = Inr ?offer"
    if "\<not> check_tool_installed st name"
    using that assms(4,5) k
    by (simp add: check_tool_def and_then_def py_in_def py_getitem_def suggest_install_def
          Let_def cmd_def explanation_def split: py.splits option.splits)
  have present: "check_tool (py_repr bi) (check_tool_installed st) (PDict d) = Inr (PDict d)"
    if "check_tool_installed st name"
    using that assms(4) k
    by (simp add: check_tool_def and_then_def py_in_def py_getitem_def)
  have chat_eq: "fst (chat bi st msg uid)
                   = (case check_tool (py_repr bi) (check_tool_installed st) (PDict d) of
                        Inr answer \<Rightarrow> answer | Inl e \<Rightarrow> except_clauses e)"
    using assms(1,2,3) by (simp add: chat_def and_then_def Let_def split: sum.splits)
  have offer: "handle_ai_response ex ?offer = Inr [OfferInstall name (PStr cmd) (PStr explanation)]"
    by (simp add: handle_ai_response_def and_then_def py_in_def offer_install_def py_getitem_def
          py_get_def)
  have str: "cmd = (case map_of install_commands s of
                      Some c \<Rightarrow> c | None \<Rightarrow> ''sudo apt install '' @ s)
             \<and> explanation = not_installed_explanation s"
    if "name = PStr s" for s
    using that by (simp add: cmd_def explanation_def py_str_def split: option.splits)
  have quiet: "\<not> executes [OfferInstall name (PStr cmd) (PStr explanation)]"
    by (simp add: executes_def)
  have exec: "\<exists>explanation replies.
                handle_ai_response ex (PDict d)
                  = Inr (AnnounceTool explanation name ps # ReplyExecuting name
                           # ExecuteTool name ps # replies)"
    if "map_of d ''parameters'' = Some ps" "map_of d ''conversation'' = None"
       "map_of d ''question'' = None" "map_of d ''tool_not_installed'' = None"
    using that assms(4) k
    by (simp add: handle_ai_response_def and_then_def py_in_def key_in_dict execute_branch_def
          py_getitem_def py_get_def run_tool_def split: option.splits)
  have first: "\<exists>cmd explanation.
               fst (chat bi st msg uid)
                 = PDict [(''tool_not_installed'', name), (''install_command'', PStr cmd),
                          (''offer_install'', PBool True), (''explanation'', PStr explanation)]
               \<and> (\<forall>s. name = PStr s \<longrightarrow>
                      cmd = (case map_of install_commands s of
                               Some c \<Rightarrow> c | None \<Rightarrow> ''sudo apt install '' @ s)
                      \<and> explanation = not_installed_explanation s)
               \<and> handle_ai_response ex (fst (chat bi st msg uid))
                   = Inr [OfferInstall name (PStr cmd) (PStr explanation)]
               \<and> \<not> executes [OfferInstall name (PStr cmd) (PStr explanation)]"
    if "\<not> check_tool_installed st name"
  proof (intro exI conjI)
    show c: "fst (chat bi st msg uid) = ?offer"
      using absent [OF that] by (simp add: chat_eq)
    show "\<forall>s. name = PStr s \<longrightarrow>
            cmd = (case map_of install_commands s of
                     Some c \<Rightarrow> c | None \<Rightarrow> ''sudo apt install '' @ s)
            \<and> explanation = not_installed_explanation s"
      using str by blast
    show "handle_ai_response ex (fst (chat bi st msg uid))
            = Inr [OfferInstall name (PStr cmd) (PStr explanation)]"
      unfolding c by (rule offer)
    show "\<not> executes [OfferInstall name (PStr cmd) (PStr explanation)]"
      by (rule quiet)
  qed
  have second: "fst (chat bi st msg uid) = PDict d" if "check_tool_installed st name"
    using present [OF that] by (simp add: chat_eq)
  show ?thesis
    using first second exec by blast
qed

theorem chat_tool_availability_witness:
  "parse_ai_response (json_loads sample_builtins) (py_strip nmap_reply)
     = Inr (PDict [(''tool'', PStr ''nmap''),
                   (''parameters'', PDict [(''target'', PStr ''10.0.0.1'')]),
                   (''explanation'', PStr ''scan'')])
   \<and> py_hashable (PStr ''nmap'')
   \<and> \<not> check_tool_installed (nmap_asked False) (PStr ''nmap'')
   \<and> fst (chat sample_builtins (nmap_asked False) ''scan 10.0.0.1'' 7)
       = PDict [(''tool_not_installed'', PStr ''nmap''),
                (''install_command'', PStr ''sudo apt install nmap''),
                (''offer_install'', PBool True),
                (''explanation'', PStr (not_installed_explanation ''nmap''))]
   \<and> handle_ai_response no_executor (fst (chat sample_builtins (nmap_asked False) ''scan 10.0.0.1'' 7))
       = Inr [OfferInstall (PStr ''nmap'') (PStr ''sudo apt install nmap'')
                (PStr (not_installed_explanation ''nmap''))]
   \<and> check_tool_installed (nmap_asked True) (PStr ''nmap'')
   \<and> handle_ai_response no_executor (fst (chat sample_builtins (nmap_asked True) ''scan 10.0.0.1'' 7))
       = Inr [AnnounceTool (PStr ''scan'') (PStr ''nmap'') (PDict [(''target'', PStr ''10.0.0.1'')]),
              ReplyExecuting (PStr ''nmap''),
              ExecuteTool (PStr ''nmap'') (PDict [(''target'', PStr ''10.0.0.1'')]),
              ReplyExecException ''tool failed'']"
proof -
  let ?d = "[(''tool'', PStr ''nmap''),
             (''parameters'', PDict [(''target'', PStr ''10.0.0.1'')]),
             (''explanation'', PStr ''scan'')]"
  have p: "parse_ai_response (json_loads sample_builtins) (py_strip nmap_reply) = Inr (PDict ?d)"
    unfolding nmap_reply_def by code_simp
  have c: "client (nmap_asked b) = Some (\<lambda>messages. Replied nmap_reply)" for b
    by (simp add: nmap_asked_def)
  have i: "check_tool_installed (nmap_asked b) v = b" for b v
    by (simp add: nmap_asked_def)
  have m: "map_of install_commands ''nmap'' = Some ''sudo apt install nmap''"
    by (simp add: install_commands_def)
  have h: "handle_ai_response no_executor (PDict ?d)
       = Inr [AnnounceTool (PStr ''scan'') (PStr ''nmap'') (PDict [(''target'', PStr ''10.0.0.1'')]),
              ReplyExecuting (PStr ''nmap''),
              ExecuteTool (PStr ''nmap'') (PDict [(''target'', PStr ''10.0.0.1'')]),
              ReplyExecException ''tool failed'']"
    by code_simp
  show ?thesis
    using chat_tool_availability [where st = "nmap_asked False"
        and complete = "\<lambda>messages. Replied nmap_reply" and msg = "''scan 10.0.0.1''" and uid = 7
        and content = nmap_reply and bi = sample_builtins and d = ?d and name = "PStr ''nmap''"
        and ex = no_executor and ps = "PDict [(''target'', PStr ''10.0.0.1'')]"]
      chat_tool_availability [where st = "nmap_asked True"
        and complete = "\<lambda>messages. Replied nmap_reply" and msg = "''scan 10.0.0.1''" and uid = 7
        and content = nmap_reply and bi = sample_builtins and d = ?d and name = "PStr ''nmap''"
        and ex = no_executor and ps = "PDict [(''target'', PStr ''10.0.0.1'')]"]
    by (auto simp: p c i m h py_hashable_def)
qed

text \<open>
  The claim as stated fails: a reply that has "tool", "parameters" and "conversation",
  with the tool present, is answered as conversation, and nothing is executed.
\<close>

theorem tool_reply_answered_as_conversation:
  "check_tool_installed mixed_asked (PStr ''nmap'')
   \<and> fst (chat sample_builtins mixed_asked ''scan 10.0.0.1'' 7)
       = PDict [(''tool'', PStr ''nmap''),
                (''parameters'', PDict [(''target'', PStr ''10.0.0.1'')]),
                (''conversation'', PStr ''hi'')]
   \<and> handle_ai_response no_executor (fst (chat sample_builtins mixed_asked ''scan 10.0.0.1'' 7))
       = Inr [ReplyConversation (PStr ''hi'')]
   \<and> \<not> executes [ReplyConversation (PStr ''hi'')]"
proof -
  have "check_tool_installed mixed_asked (PStr ''nmap'')"
    by (simp add: mixed_asked_def)
  moreover have "fst (chat sample_builtins mixed_asked ''scan 10.0.0.1'' 7)
       = PDict [(''tool'', PStr ''nmap''),
                (''parameters'', PDict [(''target'', PStr ''10.0.0.1'')]),
                (''conversation'', PStr ''hi'')]"
    by code_simp
  moreover have "handle_ai_response no_executor
        (PDict [(''tool'', PStr ''nmap''),
                (''parameters'', PDict [(''target'', PStr ''10.0.0.1'')]),
                (''conversation'', PStr ''hi'')])
       = Inr [ReplyConversation (PStr ''hi'')]"
    by code_simp
  ultimately show ?thesis by (simp add: executes_def)
qed

text \<open>
  A list as the name makes the look-up of \<open>suggest_install\<close> raise, and \<open>chat\<close>
  answers with the general error.
\<close>

lemma unhashable_tool_name_is_error:
  \<open>fst (chat sample_builtins
          \<lparr>client = Some (\<lambda>messages. Replied ''{"tool":["nmap"],"parameters":{}}''),
           user_contexts = Map.empty, check_tool_installed = (\<lambda>v. False),
           system_prompt = ''sys''\<rparr> ''scan'' 7)
     = error_general (''unhashable type: '' @ quoted ''list'')\<close>
  by code_simp

section \<open>The order of the dispatch\<close>

lemma first_match_source_order:
  "first_match source_order d =
     (if ''conversation'' \<in> fst ` set d then Conversation
      else if ''question'' \<in> fst ` set d then Question
      else if ''tool_not_installed'' \<in> fst ` set d then ToolNotInstalled
      else if ''tool'' \<in> fst ` set d \<and> ''parameters'' \<in> fst ` set d then Tool
      else if ''error'' \<in> fst ` set d then Error
      else Unknown)"
  by (simp add: first_match_def source_order_def has_shape_def)

lemma handle_ai_response_dict:
  "handle_ai_response ex (PDict d) =
     (if ''conversation'' \<in> fst ` set d then reply_conversation (PDict d)
      else if ''question'' \<in> fst ` set d then reply_question (PDict d)
      else if ''tool_not_installed'' \<in> fst ` set d then offer_install (PDict d)
      else if ''tool'' \<in> fst ` set d \<and> ''parameters'' \<in> fst ` set d then execute_branch ex (PDict d)
      else if ''error'' \<in> fst ` set d then reply_error (PDict d)
      else Inr [ReplyUnknown])"
  by (simp add: handle_ai_response_def and_then_def py_in_def)

lemma reply_conversation_dict:
  "''conversation'' \<in> fst ` set d \<Longrightarrow>
     \<exists>t. reply_conversation (PDict d) = Inr [ReplyConversation t]"
  by (auto simp: reply_conversation_def and_then_def py_getitem_def key_in_dict)

lemma reply_question_dict:
  "reply_question (PDict d) = Inr acts \<Longrightarrow> \<exists>q s. acts = [ReplyQuestion q s]"
  by (auto simp: reply_question_def and_then_def py_getitem_def py_get_def
        split: option.splits if_splits)

lemma offer_install_dict:
  "offer_install (PDict d) = Inr acts \<Longrightarrow> \<exists>t c e. acts = [OfferInstall t c e]"
  by (auto simp: offer_install_def and_then_def py_getitem_def py_get_def split: option.splits)

lemma execute_branch_dict:
  "''tool'' \<in> fst ` set d \<Longrightarrow> ''parameters'' \<in> fst ` set d \<Longrightarrow>
     \<exists>e t p replies. execute_branch ex (PDict d)
        = Inr (AnnounceTool e t p # ReplyExecuting t # ExecuteTool t p # replies)"
  by (auto simp: execute_branch_def and_then_def py_getitem_def py_get_def key_in_dict
        run_tool_def split: option.splits)

lemma reply_error_dict:
  "''error'' \<in> fst ` set d \<Longrightarrow> \<exists>e s. reply_error (PDict d) = Inr [ReplyError e s]"
  by (auto simp: reply_error_def and_then_def py_getitem_def py_get_def key_in_dict
        split: option.splits)

text \<open>
  C2, as the code has it. The dispatcher tries the shapes in the order conversation,
  question, tool_not_installed, tool with parameters, error, and the first whose keys
  are present decides the reply. A dictionary with none of them gets the reply for an
  unknown answer; no dictionary goes without a reply, unless building the reply to a
  question or to a missing tool raises.
\<close>

theorem dispatch_in_source_order:
  "(handle_ai_response ex (PDict d) = Inr acts \<longrightarrow>
      shape_of acts = Some (first_match source_order d))
   \<and> (first_match source_order d = Unknown \<longrightarrow> handle_ai_response ex (PDict d) = Inr [ReplyUnknown])
   \<and> (handle_ai_response ex (PDict d) = Inl e \<longrightarrow>
        first_match source_order d = Question \<or> first_match source_order d = ToolNotInstalled)"
proof -
  consider (c) "''conversation'' \<in> fst ` set d"
    | (q) "''conversation'' \<notin> fst ` set d" "''question'' \<in> fst ` set d"
    | (n) "''conversation'' \<notin> fst ` set d" "''question'' \<notin> fst ` set d"
          "''tool_not_installed'' \<in> fst ` set d"
    | (t) "''conversation'' \<notin> fst ` set d" "''question'' \<notin> fst ` set d"
          "''tool_not_installed'' \<notin> fst ` set d"
          "''tool'' \<in> fst ` set d" "''parameters'' \<in> fst ` set d"
    | (e) "''conversation'' \<notin> fst ` set d" "''question'' \<notin> fst ` set d"
          "''tool_not_installed'' \<notin> fst ` set d"
          "\<not> (''tool'' \<in> fst ` set d \<and> ''parameters'' \<in> fst ` set d)"
          "''error'' \<in> fst ` set d"
    | (u) "''conversation'' \<notin> fst ` set d" "''question'' \<notin> fst ` set d"
          "''tool_not_installed'' \<notin> fst ` set d"
          "\<not> (''tool'' \<in> fst ` set d \<and> ''parameters'' \<in> fst ` set d)"
          "''error'' \<notin> fst ` set d"
    by blast
  then show ?thesis
  proof cases
    case c
    with reply_conversation_dict [OF c] show ?thesis
      by (auto simp: first_match_source_order handle_ai_response_dict)
  next
    case q
    with reply_question_dict [of d acts] show ?thesis
      by (auto simp: first_match_source_order handle_ai_response_dict)
  next
    case n
    with offer_install_dict [of d acts] show ?thesis
      by (auto simp: first_match_source_order handle_ai_response_dict)
  next
    case t
    with execute_branch_dict [OF t(4,5), of ex] show ?thesis
      by (auto simp: first_match_source_order handle_ai_response_dict)
  next
    case e
    with reply_error_dict [OF e(5)] show ?thesis
      by (auto simp: first_match_source_order handle_ai_response_dict)
  next
    case u
    then show ?thesis
      by (auto simp: first_match_source_order handle_ai_response_dict)
  qed
qed

theorem dispatch_in_source_order_witness:
  "handle_ai_response no_executor (PDict [(''error'', PStr ''boom''), (''tool'', PStr ''nmap'')])
     = Inr [ReplyError (PStr ''boom'') (PStr [])]
   \<and> shape_of [ReplyError (PStr ''boom'') (PStr [])]
     = Some (first_match source_order [(''error'', PStr ''boom''), (''tool'', PStr ''nmap'')])
   \<and> first_match source_order [(''answer'', PInt 42)] = Unknown
   \<and> handle_ai_response no_executor (PDict [(''answer'', PInt 42)]) = Inr [ReplyUnknown]"
proof -
  have h: "handle_ai_response no_executor (PDict [(''error'', PStr ''boom''), (''tool'', PStr ''nmap'')])
     = Inr [ReplyError (PStr ''boom'') (PStr [])]"
    by code_simp
  have u: "first_match source_order [(''answer'', PInt 42)] = Unknown"
    by code_simp
  show ?thesis
    using dispatch_in_source_order [of no_executor "[(''error'', PStr ''boom''), (''tool'', PStr ''nmap'')]"
        "[ReplyError (PStr ''boom'') (PStr [])]"]
      dispatch_in_source_order [of no_executor "[(''answer'', PInt 42)]"]
    by (simp add: h u)
qed

text \<open>
  The claim as stated fails: in the claimed order a reply with "tool", "parameters" and
  "question" is a tool call; the dispatcher asks the question and executes nothing.
\<close>

theorem question_wins_over_tool:
  "fst (chat sample_builtins asking ''scan'' 7)
     = PDict [(''tool'', PStr ''nmap''), (''parameters'', PDict []), (''question'', PStr ''Which host?'')]
   \<and> first_match claimed_order
         [(''tool'', PStr ''nmap''), (''parameters'', PDict []), (''question'', PStr ''Which host?'')]
       = Tool
   \<and> handle_ai_response no_executor (fst (chat sample_builtins asking ''scan'' 7))
       = Inr [ReplyQuestion (PStr ''Which host?'') (PList [])]
   \<and> shape_of [ReplyQuestion (PStr ''Which host?'') (PList [])] = Some Question"
proof -
  have "fst (chat sample_builtins asking ''scan'' 7)
     = PDict [(''tool'', PStr ''nmap''), (''parameters'', PDict []), (''question'', PStr ''Which host?'')]"
    by code_simp
  moreover have "first_match claimed_order
         [(''tool'', PStr ''nmap''), (''parameters'', PDict []), (''question'', PStr ''Which host?'')]
       = Tool"
    by code_simp
  moreover have "handle_ai_response no_executor
      (PDict [(''tool'', PStr ''nmap''), (''parameters'', PDict []), (''question'', PStr ''Which host?'')])
       = Inr [ReplyQuestion (PStr ''Which host?'') (PList [])]"
    by code_simp
  ultimately show ?thesis by simp
qed

text \<open>
  An unknown answer and a parse failure get different replies: the parse failure comes
  from \<open>chat\<close> as an error dictionary and is shown as an error.
\<close>

lemma unknown_is_not_parse_failure:
  "handle_ai_response no_executor (PDict [(''answer'', PInt 42)]) = Inr [ReplyUnknown]
   \<and> handle_ai_response no_executor error_parse
       = Inr [ReplyError (PStr ''Error al parsear respuesta de IA'')
                (PStr (''Intenta reformular tu pregunta. La IA est'' @ [CHR 0xE1]
                       @ '' respondiendo texto en lugar de JSON.''))]"
  by code_simp

section \<open>Code fences\<close>

lemma py_strip_decompose:
  "\<exists>ws1 ws2. response = ws1 @ py_strip response @ ws2
     \<and> (\<forall>c \<in> set ws1. is_space c) \<and> (\<forall>c \<in> set ws2. is_space c)"
proof (intro exI conjI)
  let ?d = "dropWhile is_space response"
  let ?ws1 = "takeWhile is_space response"
  let ?ws2 = "rev (takeWhile is_space (rev ?d))"
  have "rev ?d = takeWhile is_space (rev ?d) @ dropWhile is_space (rev ?d)"
    by simp
  then have "?d = rev (dropWhile is_space (rev ?d)) @ ?ws2"
    by (metis rev_append rev_rev_ident)
  then have "?d = py_strip response @ ?ws2"
    by (simp add: py_strip_def)
  moreover have "response = ?ws1 @ ?d" by simp
  ultimately show "response = ?ws1 @ py_strip response @ ?ws2" by simp
  show "\<forall>c \<in> set ?ws1. is_space c"
    by (meson set_takeWhileD)
  show "\<forall>c \<in> set ?ws2. is_space c"
    by (metis set_rev set_takeWhileD)
qed

lemma py_partition_first:
  assumes "sep \<noteq> []" and "\<not> sublist sep (b @ butlast sep)"
  shows "py_partition sep (b @ sep @ a) = Some (b, a)"
  using assms(2)
proof (induction b)
  case Nil
  from assms(1) obtain c cs where "sep @ a = c # cs"
    by (cases sep) auto
  then show ?case
    by (metis append_Nil append_eq_conv_conj prefixI py_partition.simps(2))
next
  case (Cons c b)
  have "\<not> prefix sep (c # b @ sep @ a)"
  proof
    assume p: "prefix sep (c # b @ sep @ a)"
    have "length sep \<le> length (c # b @ butlast sep)"
      using assms(1) by (cases sep rule: rev_cases) auto
    moreover have "c # b @ sep @ a = (c # b @ butlast sep) @ (last sep # a)"
      using assms(1) by (cases sep rule: rev_cases) auto
    ultimately have "prefix sep (c # b @ butlast sep)"
      using p by (metis prefix_length_prefix prefixI)
    then show False
      using Cons.prems by (metis append_Cons prefix_imp_sublist)
  qed
  moreover have "\<not> sublist sep (b @ butlast sep)"
    using Cons.prems by (simp add: sublist_Cons_right)
  ultimately show ?case
    using Cons.IH by simp
qed

lemma py_partition_absent: "\<not> sublist sep s \<Longrightarrow> py_partition sep s = None"
  by (metis not_Some_eq py_partition_Some sublist_appendI surj_pair)

lemma no_sublist_after_foreign:
  assumes "sep = c # sep'" and "c \<notin> set ws" and "length x < length sep"
  shows "\<not> sublist sep (ws @ x)"
  using assms(2)
proof (induction ws)
  case Nil
  show ?case
    using assms(3) sublist_length_le [of sep x] by auto
next
  case (Cons w ws)
  then show ?case
    using assms(1) by (auto simp: sublist_Cons_right prefix_Cons)
qed

lemma hd_split_at:
  "sep \<noteq> [] \<Longrightarrow>
     hd (split_at sep s) = (case py_partition sep s of None \<Rightarrow> s | Some (b, a) \<Rightarrow> b)"
  by (subst split_at.simps) (simp split: option.splits)

lemma backtick_not_space: "\<not> is_space (CHR 0x60)"
  by (simp add: is_space_def)

lemma split_at_found:
  "sep \<noteq> [] \<Longrightarrow> py_partition sep s = Some (b, a) \<Longrightarrow> split_at sep s = b # split_at sep a"
  by (subst split_at.simps) simp

lemma fence_region:
  assumes y: "y = body @ ''```'' @ rest"
    and nf: "\<not> sublist ''```'' (body @ ''``'')"
    and nb: "\<not> prefix ''`'' rest"
    and p: "py_partition ''```json'' y = Some (b, a)"
  shows "b = body \<or> (\<exists>us. b = body @ ''```'' @ us)"
proof -
  from p have "y = b @ ''```json'' @ a" by (rule py_partition_Some)
  with y have "body @ ''```'' @ rest = b @ ''```json'' @ a" by simp
  then consider (A) us where "body = b @ us" "us @ ''```'' @ rest = ''```json'' @ a"
    | (B) us where "b = body @ us" "''```'' @ rest = us @ ''```json'' @ a"
    by (auto simp: append_eq_append_conv2)
  then show ?thesis
  proof cases
    case A
    show ?thesis
    proof (cases us)
      case Nil
      with A show ?thesis by simp
    next
      case c1: (Cons u1 us1)
      show ?thesis
      proof (cases us1)
        case Nil
        with A c1 show ?thesis by simp
      next
        case c2: (Cons u2 us2)
        show ?thesis
        proof (cases us2)
          case Nil
          with A c1 c2 show ?thesis by simp
        next
          case c3: (Cons u3 us3)
          with A c1 c2 have "body = b @ ''```'' @ us3" by simp
          then have "sublist ''```'' (body @ ''``'')"
            by (metis append_assoc sublist_appendI)
          with nf show ?thesis by simp
        qed
      qed
    qed
  next
    case B
    show ?thesis
    proof (cases us)
      case Nil
      with B show ?thesis by simp
    next
      case c1: (Cons u1 us1)
      show ?thesis
      proof (cases us1)
        case Nil
        with B c1 nb show ?thesis by auto
      next
        case c2: (Cons u2 us2)
        show ?thesis
        proof (cases us2)
          case Nil
          with B c1 c2 nb show ?thesis by auto
        next
          case c3: (Cons u3 us3)
          with B c1 c2 show ?thesis by auto
        qed
      qed
    qed
  qed
qed

lemma first_fence_of_region:
  assumes nf: "\<not> sublist ''```'' (body @ ''``'')"
    and b: "b = body \<or> (\<exists>us. b = body @ ''```'' @ us)"
  shows "hd (split_at ''```'' b) = body"
proof -
  from b show ?thesis
  proof
    assume "b = body"
    moreover have "\<not> sublist ''```'' body"
      using nf by (metis sublist_append)
    ultimately show ?thesis
      by (simp add: hd_split_at py_partition_absent)
  next
    assume "\<exists>us. b = body @ ''```'' @ us"
    then obtain us where "b = body @ ''```'' @ us" ..
    moreover have "py_partition ''```'' (body @ ''```'' @ us) = Some (body, us)"
      using nf by (intro py_partition_first) simp_all
    ultimately show ?thesis
      by (simp add: hd_split_at)
  qed
qed

lemma index_head: "xs \<noteq> [] \<Longrightarrow> py_index xs 0 = Inr (hd xs)"
  by (cases xs) (simp_all add: py_index_def)

lemma index_second: "xs \<noteq> [] \<Longrightarrow> py_index (x # xs) 1 = Inr (hd xs)"
  by (cases xs) (simp_all add: py_index_def)

lemma clean_fenced:
  assumes t: "py_strip response = marker @ body @ ''```'' @ rest"
    and m: "marker = ''```json'' \<or> marker = ''```'' \<and> \<not> prefix ''```json'' (py_strip response)"
    and nf: "\<not> sublist ''```'' (body @ ''``'')"
    and nb: "\<not> prefix ''`'' rest"
  shows "clean_response response = Inr (py_strip body)"
proof -
  obtain ws1 ws2 where r: "response = ws1 @ py_strip response @ ws2"
    and w1: "\<forall>c \<in> set ws1. is_space c" and w2: "\<forall>c \<in> set ws2. is_space c"
    using py_strip_decompose by blast
  have tick: "CHR 0x60 \<notin> set ws1" "CHR 0x60 \<notin> set ws2"
    using w1 w2 backtick_not_space by blast+
  define rest' where "rest' = rest @ ws2"
  define y where "y = body @ ''```'' @ rest'"
  have nb': "\<not> prefix ''`'' rest'"
    using nb tick(2) by (cases rest; cases ws2) (auto simp: rest'_def)
  have resp: "response = ws1 @ marker @ y"
    using r t by (simp add: y_def rest'_def)
  from m show ?thesis
  proof
    assume mj: "marker = ''```json''"
    have pj: "prefix ''```json'' (py_strip response)"
      using t mj by simp
    have "\<not> sublist ''```json'' (ws1 @ butlast ''```json'')"
      by (rule no_sublist_after_foreign [OF _ tick(1)]) simp_all
    then have "py_partition ''```json'' (ws1 @ ''```json'' @ y) = Some (ws1, y)"
      by (intro py_partition_first) simp_all
    then have s1: "split_at ''```json'' response = ws1 # split_at ''```json'' y"
      using resp mj by (simp add: split_at_found)
    have i1: "py_index (split_at ''```json'' response) 1 = Inr (hd (split_at ''```json'' y))"
      unfolding s1 by (rule index_second) (rule split_at_not_Nil)
    have inner: "hd (split_at ''```json'' y) = body
                 \<or> (\<exists>us. hd (split_at ''```json'' y) = body @ ''```'' @ us)"
    proof (cases "py_partition ''```json'' y")
      case None
      then show ?thesis
        by (auto simp: hd_split_at y_def)
    next
      case (Some ba)
      obtain b a where "ba = (b, a)" by (cases ba)
      with Some fence_region [OF y_def nf nb', of b a] show ?thesis
        by (simp add: hd_split_at)
    qed
    have i2: "py_index (split_at ''```'' (hd (split_at ''```json'' y))) 0 = Inr body"
      using first_fence_of_region [OF nf inner] index_head [OF split_at_not_Nil]
      by simp
    show ?thesis
      using pj i1 i2 by (simp add: clean_response_def py_split_def and_then_def)
  next
    assume mp: "marker = ''```'' \<and> \<not> prefix ''```json'' (py_strip response)"
    have pf: "prefix ''```'' (py_strip response)"
      using t mp by simp
    have "\<not> sublist ''```'' (ws1 @ butlast ''```'')"
      by (rule no_sublist_after_foreign [OF _ tick(1)]) simp_all
    then have "py_partition ''```'' (ws1 @ ''```'' @ y) = Some (ws1, y)"
      by (intro py_partition_first) simp_all
    then have s1: "split_at ''```'' response = ws1 # split_at ''```'' y"
      using resp mp by (simp add: split_at_found)
    have i1: "py_index (split_at ''```'' response) 1 = Inr (hd (split_at ''```'' y))"
      unfolding s1 by (rule index_second) (rule split_at_not_Nil)
    have h: "hd (split_at ''```'' y) = body"
      by (rule first_fence_of_region [OF nf]) (auto simp: y_def)
    have i2: "py_index (split_at ''```'' body) 0 = Inr body"
      using first_fence_of_region [OF nf, of body] index_head [OF split_at_not_Nil]
      by simp
    show ?thesis
      using pf mp i1 i2 by (simp add: clean_response_def py_split_def and_then_def h)
  qed
qed


text \<open>
  C6, as the code has it. Take a reply that, after leading whitespace, begins with the
  marker \<open>```json\<close>, or with the marker \<open>```\<close> when the text does not begin with
  \<open>```json\<close>; then a body; then the closing fence, which is the first \<open>```\<close>
  after the marker and is not followed by a further backquote. The parser decodes the
  body, stripped of whitespace, and nothing else; a language tag other than \<open>json\<close>
  is part of the body. In particular, when the stripped body is the document
  \<open>{"conversation":"hi"}\<close>, the result is the Conversation reply with the text "hi".
\<close>

theorem parse_strips_fence:
  assumes "py_strip response = marker @ body @ ''```'' @ rest"
    and "marker = ''```json'' \<or> marker = ''```'' \<and> \<not> prefix ''```json'' (py_strip response)"
    and "\<not> sublist ''```'' (body @ ''``'')"
    and "\<not> prefix ''`'' rest"
  shows "clean_response response = Inr (py_strip body)
       \<and> (loads (py_strip body) = Inr (PDict d) \<longrightarrow>
            parse_ai_response loads response = Inr (PDict d))
       \<and> (loads (py_strip body) = Inl e \<longrightarrow> parse_ai_response loads response = Inl e)
       \<and> (py_strip body = hi_document
            \<and> loads hi_document = Inr (PDict [(''conversation'', PStr ''hi'')]) \<longrightarrow>
            parse_ai_response loads response = Inr (PDict [(''conversation'', PStr ''hi'')])
            \<and> check_tool repr installed (PDict [(''conversation'', PStr ''hi'')])
                = Inr (PDict [(''conversation'', PStr ''hi'')])
            \<and> handle_ai_response ex (PDict [(''conversation'', PStr ''hi'')])
                = Inr [ReplyConversation (PStr ''hi'')])"
proof -
  have c: "clean_response response = Inr (py_strip body)"
    using assms by (rule clean_fenced)
  have "check_tool repr installed (PDict [(''conversation'', PStr ''hi'')])
          = Inr (PDict [(''conversation'', PStr ''hi'')])"
    by (simp add: check_tool_def and_then_def py_in_def)
  moreover have "handle_ai_response ex (PDict [(''conversation'', PStr ''hi'')])
                   = Inr [ReplyConversation (PStr ''hi'')]"
    by (simp add: handle_ai_response_def and_then_def py_in_def reply_conversation_def
          py_getitem_def)
  ultimately show ?thesis
    by (simp add: c parse_ai_response_def and_then_def)
qed

theorem parse_strips_fence_witness:
  "py_strip fenced_hi = ''```json'' @ ([CHR 0x0A] @ hi_document @ [CHR 0x0A]) @ ''```'' @ []
   \<and> \<not> sublist ''```'' (([CHR 0x0A] @ hi_document @ [CHR 0x0A]) @ ''``'')
   \<and> py_strip ([CHR 0x0A] @ hi_document @ [CHR 0x0A]) = hi_document
   \<and> decode_json hi_document = Inr (PDict [(''conversation'', PStr ''hi'')])
   \<and> parse_ai_response decode_json fenced_hi = Inr (PDict [(''conversation'', PStr ''hi'')])
   \<and> fst (chat sample_builtins fenced_client ''hola'' 7) = PDict [(''conversation'', PStr ''hi'')]
   \<and> py_strip bare_fenced_hi = ''```'' @ hi_document @ ''```'' @ '' Anything else?''
   \<and> clean_response bare_fenced_hi = Inr hi_document"
proof -
  have a: "py_strip fenced_hi = ''```json'' @ ([CHR 0x0A] @ hi_document @ [CHR 0x0A]) @ ''```'' @ []"
    by code_simp
  have b: "\<not> sublist ''```'' (([CHR 0x0A] @ hi_document @ [CHR 0x0A]) @ ''``'')"
    by code_simp
  have c: "py_strip ([CHR 0x0A] @ hi_document @ [CHR 0x0A]) = hi_document"
    by code_simp
  have d: "decode_json hi_document = Inr (PDict [(''conversation'', PStr ''hi'')])"
    by code_simp
  have e: "fst (chat sample_builtins fenced_client ''hola'' 7) = PDict [(''conversation'', PStr ''hi'')]"
    by code_simp
  have f: "py_strip bare_fenced_hi = ''```'' @ hi_document @ ''```'' @ '' Anything else?''"
    by code_simp
  have g: "\<not> prefix ''```json'' (py_strip bare_fenced_hi)"
    by code_simp
  have h: "\<not> sublist ''```'' (hi_document @ ''``'')"
    by code_simp
  have i: "py_strip hi_document = hi_document"
    by code_simp
  have m1: "''```json'' = ''```json'' \<or> ''```json'' = ''```'' \<and> \<not> prefix ''```json'' (py_strip fenced_hi)"
    by simp
  have m2: "''```'' = ''```json'' \<or> ''```'' = ''```'' \<and> \<not> prefix ''```json'' (py_strip bare_fenced_hi)"
    using g by simp
  have n1: "\<not> prefix ''`'' []" and n2: "\<not> prefix ''`'' '' Anything else?''"
    by simp_all
  have "decode_json (py_strip ([CHR 0x0A] @ hi_document @ [CHR 0x0A]))
          = Inr (PDict [(''conversation'', PStr ''hi'')])"
    unfolding c by (rule d)
  with parse_strips_fence [OF a m1 b n1, of decode_json "[(''conversation'', PStr ''hi'')]"]
  have p1: "parse_ai_response decode_json fenced_hi = Inr (PDict [(''conversation'', PStr ''hi'')])"
    by blast
  from parse_strips_fence [OF f m2 h n2, of decode_json]
  have "clean_response bare_fenced_hi = Inr (py_strip hi_document)"
    by blast
  then have p2: "clean_response bare_fenced_hi = Inr hi_document"
    unfolding i .
  from a b c d p1 e f p2 show ?thesis
    by blast
qed

lemma clean_response_returns: "\<exists>cleaned. clean_response response = Inr cleaned"
proof -
  obtain ws1 ws2 where r: "response = ws1 @ py_strip response @ ws2"
    and w1: "\<forall>c \<in> set ws1. is_space c"
    using py_strip_decompose by blast
  have tick: "CHR 0x60 \<notin> set ws1"
    using w1 backtick_not_space by blast
  have two: "\<exists>x. py_index (split_at sep response) 1 = Inr x"
    if "prefix sep (py_strip response)" "sep = CHR 0x60 # sep'" for sep sep'
  proof -
    from that(1) obtain y where "py_strip response = sep @ y"
      by (auto simp: prefix_def)
    with r have resp: "response = ws1 @ sep @ (y @ ws2)" by simp
    have "\<not> sublist sep (ws1 @ butlast sep)"
      by (rule no_sublist_after_foreign [OF that(2) tick]) (simp add: that(2))
    then have "py_partition sep (ws1 @ sep @ (y @ ws2)) = Some (ws1, y @ ws2)"
      using that(2) by (intro py_partition_first) simp_all
    then have "split_at sep response = ws1 # split_at sep (y @ ws2)"
      using resp that(2) by (simp add: split_at_found)
    then show ?thesis
      using index_second [OF split_at_not_Nil] by simp
  qed
  have zero: "\<exists>x. py_index (split_at sep s) 0 = Inr x" for sep s
    using index_head [OF split_at_not_Nil] by blast
  show ?thesis
  proof (cases "prefix ''```json'' (py_strip response)")
    case True
    from two [OF True] obtain x where "py_index (split_at ''```json'' response) 1 = Inr x"
      by auto
    moreover from zero obtain z where "py_index (split_at ''```'' x) 0 = Inr z"
      by blast
    ultimately show ?thesis
      using True by (simp add: clean_response_def py_split_def and_then_def)
  next
    case False
    show ?thesis
    proof (cases "prefix ''```'' (py_strip response)")
      case True
      from two [OF True] obtain x where "py_index (split_at ''```'' response) 1 = Inr x"
        by auto
      moreover from zero obtain z where "py_index (split_at ''```'' x) 0 = Inr z"
        by blast
      ultimately show ?thesis
        using True False by (simp add: clean_response_def py_split_def and_then_def)
    next
      case f: False
      with False show ?thesis
        by (simp add: clean_response_def)
    qed
  qed
qed

text \<open>
  The claim as stated fails: a reply that begins with a code block fenced with the
  language tag \<open>js\<close> and holding \<open>{"conversation":"hi"}\<close> is decoded with the tag
  in front, and \<open>chat\<close> answers with the parse error.
\<close>

theorem tagged_fence_keeps_tag:
  "clean_response js_fenced_hi = Inr (''js'' @ [CHR 0x0A] @ hi_document)
   \<and> fst (chat sample_builtins js_client ''hola'' 7) = error_parse"
proof -
  have "clean_response js_fenced_hi = Inr (''js'' @ [CHR 0x0A] @ hi_document)"
    by code_simp
  moreover have "fst (chat sample_builtins js_client ''hola'' 7) = error_parse"
    by code_simp
  ultimately show ?thesis by simp
qed

end
